theory Spec2Isabelle
  imports Main "HOL-Library.List_Lexorder" "HOL-Library.Char_ord"
begin

section \<open>Python values, types and dictionaries\<close>

text \<open>
  The module \<^verbatim>\<open>langchain/schema/prompt_template.py\<close> dispatches on the runtime type of
  arbitrary Python values. A Python class is modelled by its name and its direct bases;
  \<open>issubclass\<close> walks the bases, so that \<open>isinstance\<close> is "the runtime type of the value
  is the given class or one of its descendants".
\<close>

datatype pytype = PyType string "pytype list"

fun issubclass :: "pytype \<Rightarrow> pytype \<Rightarrow> bool" where
  "issubclass (PyType n bs) d = (PyType n bs = d \<or> (\<exists>b \<in> set bs. issubclass b d))"

definition object_t :: pytype where "object_t = PyType ''object'' []"
definition NoneType_t :: pytype where "NoneType_t = PyType ''NoneType'' [object_t]"
definition int_t :: pytype where "int_t = PyType ''int'' [object_t]"
definition bool_t :: pytype where "bool_t = PyType ''bool'' [int_t]"
definition str_t :: pytype where "str_t = PyType ''str'' [object_t]"
definition list_t :: pytype where "list_t = PyType ''list'' [object_t]"
definition dict_t :: pytype where "dict_t = PyType ''dict'' [object_t]"
definition Serializable_t :: pytype where "Serializable_t = PyType ''Serializable'' [object_t]"
definition Document_t :: pytype where "Document_t = PyType ''Document'' [Serializable_t]"

text \<open>
  Values: the built-in scalars and containers, and instances of classes (\<open>VObj\<close>: the
  class and the attributes). A \<^verbatim>\<open>Document\<close> is an instance of \<open>Document_t\<close> (or of a
  subclass) with the attributes \<^verbatim>\<open>page_content\<close> and \<^verbatim>\<open>metadata\<close>.
\<close>

datatype pyval =
    VNone
  | VBool bool
  | VInt int
  | VStr string
  | VList "pyval list"
  | VDict "(string \<times> pyval) list"
  | VObj pytype "(string \<times> pyval) list"

fun type_of :: "pyval \<Rightarrow> pytype" where
  "type_of VNone = NoneType_t"
| "type_of (VBool b) = bool_t"
| "type_of (VInt i) = int_t"
| "type_of (VStr s) = str_t"
| "type_of (VList xs) = list_t"
| "type_of (VDict kvs) = dict_t"
| "type_of (VObj c attrs) = c"

definition isinstance :: "pyval \<Rightarrow> pytype \<Rightarrow> bool" where
  "isinstance v t = issubclass (type_of v) t"

text \<open>
  Where the module reads the attributes of a \<^verbatim>\<open>Document\<close> itself (\<^verbatim>\<open>format_document\<close>), the
  document is the record of its two fields; \<open>document_value\<close> is the same document as a
  value.
\<close>

record document =
  page_content :: string
  metadata :: "(string \<times> pyval) list"

definition document_value :: "document \<Rightarrow> pyval" where
  "document_value doc =
     VObj Document_t [(''page_content'', VStr (page_content doc)), (''metadata'', VDict (metadata doc))]"

text \<open>
  Every \<^verbatim>\<open>raise\<close> of the module is a \<^verbatim>\<open>ValueError\<close>; \<open>value_error\<close> keeps what the
  message is built from. The other constructors are the exceptions that the callables
  handed to the module (formatters, partial variables, collaborators) may raise, and
  \<open>RecursionError\<close> is Python's answer to a recursion deeper than its limit.
\<close>

datatype value_error =
    TooManyArguments string nat
  | InputVariableNamedStop
  | PartialVariableNamedStop
  | OverlappingVariables "string set"
  | CannotSavePartial
  | MustBeJsonOrYaml string
  | MissingMetadata "string list" "string list"

datatype error =
    ValueError value_error
  | RecursionError
  | NotImplementedError
  | AttributeError string
  | KeyError string
  | TypeError string
  | OSError string
  | OtherError string

text \<open>
  A Python \<^verbatim>\<open>dict\<close> keeps insertion order and has one entry per key: an association
  list. \<open>dict_set\<close> is \<^verbatim>\<open>d[k] = v\<close> (an existing key keeps its position), \<open>dict_merge\<close> is
  \<^verbatim>\<open>{**a, **b}\<close>, \<open>dict_del\<close> is \<^verbatim>\<open>del d[k]\<close>.
\<close>

type_synonym 'v pydict = "(string \<times> 'v) list"

definition keys :: "('k \<times> 'v) list \<Rightarrow> 'k set" where
  "keys d = set (map fst d)"

fun dict_set :: "'k \<Rightarrow> 'v \<Rightarrow> ('k \<times> 'v) list \<Rightarrow> ('k \<times> 'v) list" where
  "dict_set k v [] = [(k, v)]"
| "dict_set k v ((k', v') # d) = (if k' = k then (k, v) # d else (k', v') # dict_set k v d)"

definition dict_merge :: "('k \<times> 'v) list \<Rightarrow> ('k \<times> 'v) list \<Rightarrow> ('k \<times> 'v) list" where
  "dict_merge a b = fold (\<lambda>(k, v). dict_set k v) b a"

definition dict_del :: "string \<Rightarrow> 'v pydict \<Rightarrow> error + 'v pydict" where
  "dict_del k d = (if k \<in> keys d then Inr (filter (\<lambda>(k', v). k' \<noteq> k) d) else Inl (KeyError k))"

section \<open>The formatter registry\<close>

text \<open>
  A formatter is a Python callable. The module looks at three things: the number of
  parameters that \<^verbatim>\<open>inspect.signature\<close> reports (\<open>None\<close> when it raises \<^verbatim>\<open>ValueError\<close>, as
  it does for \<^verbatim>\<open>operator.attrgetter\<close> objects), what a call with one argument does, and
  what a call with two arguments does. \<open>fmt_repr\<close> is the text the error message shows.
\<close>

record formatter =
  fmt_repr :: string
  fmt_parameters :: "nat option"
  fmt_call1 :: "pyval \<Rightarrow> error + pyval"
  fmt_call2 :: "pyval \<Rightarrow> (pyval \<Rightarrow> error + pyval) \<Rightarrow> error + pyval"

type_synonym formatters_type = "(pytype \<times> formatter) list"

text \<open>
  The loop \<^verbatim>\<open>for type_, formatter in formatters.items(): if isinstance(value, type_)\<close>:
  the formatter of the first entry, in the order of the dictionary, that the value is an
  instance of.
\<close>

fun first_instance_match :: "formatters_type \<Rightarrow> pyval \<Rightarrow> formatter option" where
  "first_instance_match [] v = None"
| "first_instance_match ((t, f) # R) v = (if isinstance v t then Some f else first_instance_match R v)"

text \<open>
  \<^verbatim>\<open>_format_value\<close> and \<^verbatim>\<open>_apply_formatter\<close> (a name cannot begin with an underscore
  here: \<open>format_value\<close>, \<open>apply_formatter\<close> and, below, \<open>prepare_variables\<close>) are taken to be
  functions of their arguments, as section 4.1 of the specification has the formatters.
  They call each other through the callback
  \<^verbatim>\<open>partial(_format_value, formatters)\<close> that a two-parameter formatter receives, and a
  formatter may call it on any value, so the recursion has no bound of its own. The first
  argument is the recursion depth Python still allows: each call of \<^verbatim>\<open>_format_value\<close> uses
  one level, and at depth 0 the call raises \<^verbatim>\<open>RecursionError\<close>.
\<close>

fun format_value :: "nat \<Rightarrow> formatters_type \<Rightarrow> pyval \<Rightarrow> error + pyval"
  and apply_formatter :: "nat \<Rightarrow> formatters_type \<Rightarrow> formatter \<Rightarrow> pyval \<Rightarrow> error + pyval"
where
  "format_value 0 R v = Inl RecursionError"
| "format_value (Suc d) R v =
     (case map_of R (type_of v) of
        Some f \<Rightarrow> apply_formatter d R f v
      | None \<Rightarrow>
          (case first_instance_match R v of
             Some f \<Rightarrow> apply_formatter d R f v
           | None \<Rightarrow> Inr v))"
| "apply_formatter d R f v =
     (let arity = (case fmt_parameters f of Some n \<Rightarrow> n | None \<Rightarrow> 1) in
      if arity = 1 then fmt_call1 f v
      else if arity = 2 then fmt_call2 f v (\<lambda>x. format_value d R x)
      else Inl (ValueError (TooManyArguments (fmt_repr f) arity)))"

text \<open>
  Comprehensions that build a list or a dictionary stop at the first element whose
  expression raises. \<open>list_comprehension f xs\<close> is \<^verbatim>\<open>[f(x) for x in xs]\<close>;
  \<open>dict_comprehension f xs acc\<close> is \<^verbatim>\<open>{key(x): val(x) for x in xs}\<close>, with \<open>f\<close> giving the pair
  and \<open>acc\<close> the dictionary built so far.
\<close>

fun list_comprehension :: "('a \<Rightarrow> error + 'b) \<Rightarrow> 'a list \<Rightarrow> error + 'b list" where
  "list_comprehension f [] = Inr []"
| "list_comprehension f (x # xs) =
     (case f x of
        Inl e \<Rightarrow> Inl e
      | Inr y \<Rightarrow> (case list_comprehension f xs of Inl e \<Rightarrow> Inl e | Inr ys \<Rightarrow> Inr (y # ys)))"

fun dict_comprehension ::
  "('a \<Rightarrow> error + ('k \<times> 'v)) \<Rightarrow> 'a list \<Rightarrow> ('k \<times> 'v) list \<Rightarrow> error + ('k \<times> 'v) list" where
  "dict_comprehension f [] acc = Inr acc"
| "dict_comprehension f (x # xs) acc =
     (case f x of
        Inl e \<Rightarrow> Inl e
      | Inr (k, v) \<Rightarrow> dict_comprehension f xs (dict_set k v acc))"

text \<open>
  \<^verbatim>\<open>PROMPT_DEFAULT_FORMATTERS\<close>: \<^verbatim>\<open>attrgetter("page_content")\<close> for documents (no
  signature, so it is called with one argument), and two lambdas with the parameters
  \<^verbatim>\<open>(list_value, format)\<close> and \<^verbatim>\<open>(dict_value, format)\<close>. Called with the wrong number of
  arguments, or on a value that cannot be iterated that way, they raise \<^verbatim>\<open>TypeError\<close>.
\<close>

definition attrgetter :: "string \<Rightarrow> pyval \<Rightarrow> error + pyval" where
  "attrgetter a v =
     (case v of
        VObj c attrs \<Rightarrow> (case map_of attrs a of Some x \<Rightarrow> Inr x | None \<Rightarrow> Inl (AttributeError a))
      | _ \<Rightarrow> Inl (AttributeError a))"

definition document_formatter :: formatter where
  "document_formatter =
     \<lparr> fmt_repr = ''operator.attrgetter(page_content)'',
       fmt_parameters = None,
       fmt_call1 = attrgetter ''page_content'',
       fmt_call2 = (\<lambda>v format. Inl (TypeError ''attrgetter expected 1 argument, got 2'')) \<rparr>"

definition list_formatter :: formatter where
  "list_formatter =
     \<lparr> fmt_repr = ''<lambda list_value, format>'',
       fmt_parameters = Some 2,
       fmt_call1 = (\<lambda>v. Inl (TypeError ''missing 1 required positional argument'')),
       fmt_call2 = (\<lambda>list_value format.
          case list_value of
            VList es \<Rightarrow> (case list_comprehension format es of Inl e \<Rightarrow> Inl e | Inr ys \<Rightarrow> Inr (VList ys))
          | _ \<Rightarrow> Inl (TypeError ''object is not iterable'')) \<rparr>"

definition dict_formatter :: formatter where
  "dict_formatter =
     \<lparr> fmt_repr = ''<lambda dict_value, format>'',
       fmt_parameters = Some 2,
       fmt_call1 = (\<lambda>v. Inl (TypeError ''missing 1 required positional argument'')),
       fmt_call2 = (\<lambda>dict_value format.
          case dict_value of
            VDict kvs \<Rightarrow>
              (case dict_comprehension
                      (\<lambda>(k, v). case format v of Inl e \<Rightarrow> Inl e | Inr y \<Rightarrow> Inr (k, y)) kvs [] of
                 Inl e \<Rightarrow> Inl e
               | Inr d \<Rightarrow> Inr (VDict d))
          | _ \<Rightarrow> Inl (AttributeError ''items'')) \<rparr>"

definition PROMPT_DEFAULT_FORMATTERS :: formatters_type where
  "PROMPT_DEFAULT_FORMATTERS =
     [(Document_t, document_formatter), (list_t, list_formatter), (dict_t, dict_formatter)]"

section \<open>The prompt template\<close>

text \<open>
  A partial variable is a string or a zero-argument callable. A callable may read and
  change the world outside the program (a clock, a counter), so it is a function from the
  state of that world \<open>'w\<close> to what it returns or raises and the new state.
\<close>

datatype 'w partial_value =
    PStr string
  | PCallable "'w \<Rightarrow> (error + pyval) \<times> 'w"

text \<open>
  The fields of \<^verbatim>\<open>BasePromptTemplate\<close>. The class is abstract: the fields of a concrete
  subclass are the record's extension, and the methods a subclass defines
  (\<^verbatim>\<open>format\<close>, \<^verbatim>\<open>_prompt_type\<close>) are arguments of the functions that call them. The output
  parser is an object the module never looks into.
\<close>

record 'w base_prompt_template =
  formatters :: formatters_type
  input_variables :: "string list"
  output_parser :: "pyval option"
  partial_variables :: "'w partial_value pydict"

definition validate_variable_names ::
  "('w, 'a) base_prompt_template_scheme \<Rightarrow> error + ('w, 'a) base_prompt_template_scheme" where
  "validate_variable_names values =
     (if ''stop'' \<in> set (input_variables values) then Inl (ValueError InputVariableNamedStop)
      else if ''stop'' \<in> keys (partial_variables values) then Inl (ValueError PartialVariableNamedStop)
      else (let overall = set (input_variables values) \<inter> keys (partial_variables values) in
            if overall \<noteq> {} then Inl (ValueError (OverlappingVariables overall))
            else Inr values))"

text \<open>
  Modelled from the spec: the constructor of the class, which is pydantic's and not
  part of the module. Section 4.3 of the specification: the validation "runs once at
  construction"; the instance holds the field values the validator returns.
\<close>

definition construct ::
  "('w, 'a) base_prompt_template_scheme \<Rightarrow> error + ('w, 'a) base_prompt_template_scheme" where
  "construct prompt_dict = validate_variable_names prompt_dict"

text \<open>
  \<^verbatim>\<open>list(s)\<close> of a set \<open>s\<close> lists its elements once each, in an order Python does not
  specify: the order is an argument, \<open>list_of_set\<close>, a function of the set, and
  \<open>enumerates\<close> says what Python promises about it.
\<close>

definition enumerates :: "(string set \<Rightarrow> string list) \<Rightarrow> bool" where
  "enumerates list_of_set = (\<forall>S. finite S \<longrightarrow> set (list_of_set S) = S \<and> distinct (list_of_set S))"

definition partial ::
  "(string set \<Rightarrow> string list) \<Rightarrow> ('w, 'a) base_prompt_template_scheme \<Rightarrow> 'w partial_value pydict
     \<Rightarrow> error + ('w, 'a) base_prompt_template_scheme" where
  "partial list_of_set self kwargs =
     (let prompt_dict = self;
          prompt_dict = prompt_dict\<lparr>input_variables :=
            list_of_set (set (input_variables self) - keys kwargs)\<rparr>;
          prompt_dict = prompt_dict\<lparr>partial_variables :=
            dict_merge (partial_variables self) kwargs\<rparr>
      in construct prompt_dict)"

text \<open>
  Objects live in a store and \<^verbatim>\<open>self\<close> is a reference into it. \<^verbatim>\<open>partial\<close> copies
  \<^verbatim>\<open>self.__dict__\<close>, rebinds two keys of the copy and constructs a new object from it: the
  store grows by that object, at a fresh address, when the constructor returns. A
  reference is an address below the length of the store.
\<close>

definition partial_method ::
  "(string set \<Rightarrow> string list) \<Rightarrow> ('w, 'a) base_prompt_template_scheme list \<Rightarrow> nat
     \<Rightarrow> 'w partial_value pydict \<Rightarrow> (error + nat) \<times> ('w, 'a) base_prompt_template_scheme list" where
  "partial_method list_of_set store self kwargs =
     (case partial list_of_set (store ! self) kwargs of
        Inl e \<Rightarrow> (Inl e, store)
      | Inr new \<Rightarrow> (Inr (length store), store @ [new]))"

text \<open>
  \<^verbatim>\<open>_prepare_variables\<close>. The first comprehension goes through the partial variables in
  their order, uses a string as it is and calls anything else; a call may raise, and it
  passes the state of the world on to the next one.
\<close>

fun resolve_partials ::
  "'w partial_value pydict \<Rightarrow> pyval pydict \<Rightarrow> 'w \<Rightarrow> (error + pyval pydict) \<times> 'w" where
  "resolve_partials [] acc w = (Inr acc, w)"
| "resolve_partials ((k, PStr s) # rest) acc w = resolve_partials rest (dict_set k (VStr s) acc) w"
| "resolve_partials ((k, PCallable c) # rest) acc w =
     (case c w of
        (Inl e, w') \<Rightarrow> (Inl e, w')
      | (Inr x, w') \<Rightarrow> resolve_partials rest (dict_set k x acc) w')"

definition prepare_variables ::
  "nat \<Rightarrow> ('w, 'a) base_prompt_template_scheme \<Rightarrow> pyval pydict \<Rightarrow> 'w \<Rightarrow> (error + pyval pydict) \<times> 'w" where
  "prepare_variables depth self kwargs w =
     (case resolve_partials (partial_variables self) [] w of
        (Inl e, w') \<Rightarrow> (Inl e, w')
      | (Inr partial_kwargs, w') \<Rightarrow>
          (let all_variables = dict_merge partial_kwargs kwargs in
           (dict_comprehension
              (\<lambda>(k, v). case format_value depth (formatters self) v of
                           Inl e \<Rightarrow> Inl e
                         | Inr y \<Rightarrow> Inr (k, y))
              all_variables [], w')))"

section \<open>Formatting a document\<close>

text \<open>
  \<^verbatim>\<open>format_document(doc, prompt)\<close>. \<^verbatim>\<open>prompt.format\<close> is the method of the concrete template class, an argument here, and
  whatever it does (return a string, raise) is the result \<open>'r\<close>. An index
  \<^verbatim>\<open>base_info[k]\<close> of a missing key raises \<^verbatim>\<open>KeyError\<close>.
\<close>

definition getitem :: "'v pydict \<Rightarrow> string \<Rightarrow> error + 'v" where
  "getitem d k = (case map_of d k of Some v \<Rightarrow> Inr v | None \<Rightarrow> Inl (KeyError k))"

definition format_document ::
  "(string set \<Rightarrow> string list)
     \<Rightarrow> (('w, 'a) base_prompt_template_scheme \<Rightarrow> pyval pydict \<Rightarrow> 'r)
     \<Rightarrow> document \<Rightarrow> ('w, 'a) base_prompt_template_scheme \<Rightarrow> error + 'r" where
  "format_document list_of_set format doc prompt =
     (let base_info = dict_merge [(''page_content'', VStr (page_content doc))] (metadata doc);
          missing_metadata = set (input_variables prompt) - keys base_info
      in if card missing_metadata > 0
         then (let required_metadata = filter (\<lambda>iv. iv \<noteq> ''page_content'') (input_variables prompt)
               in Inl (ValueError (MissingMetadata required_metadata (list_of_set missing_metadata))))
         else (case dict_comprehension
                      (\<lambda>k. case getitem base_info k of Inl e \<Rightarrow> Inl e | Inr v \<Rightarrow> Inr (k, v))
                      (input_variables prompt) [] of
                 Inl e \<Rightarrow> Inl e
               | Inr document_info \<Rightarrow> Inr (format prompt document_info)))"

section \<open>Saving a template\<close>

text \<open>
  \<^verbatim>\<open>save\<close> works on the file system: the directories, of a type \<open>'d\<close> that only
  \<^verbatim>\<open>Path.mkdir\<close> knows, and the files, a map from a path to the text of the file. A path is
  the string it was made from together with the two attributes that \<^verbatim>\<open>pathlib\<close> computes
  and the method reads, \<^verbatim>\<open>parent\<close> and \<^verbatim>\<open>suffix\<close>.
\<close>

record path =
  path_str :: string
  path_parent :: string
  path_suffix :: string

record 'd filesystem =
  fs_dirs :: 'd
  fs_files :: "string \<rightharpoonup> string"

text \<open>
  What \<^verbatim>\<open>save\<close> calls and the module does not define:
  \<^item> \<open>mkdir\<close>: \<^verbatim>\<open>directory_path.mkdir(parents=True, exist_ok=True)\<close>, which changes the
    directories and may raise;
  \<^item> \<open>super_dict\<close>: \<^verbatim>\<open>super().dict()\<close>, the dictionary of the fields;
  \<^item> \<open>prompt_type\<close>: the property \<^verbatim>\<open>_prompt_type\<close> as the concrete class defines it;
  \<^item> \<open>open_error\<close>: the exception, if any, that \<^verbatim>\<open>open(file_path, "w")\<close> raises;
  \<^item> \<open>json_dump\<close>, \<open>yaml_dump\<close>: the text that \<^verbatim>\<open>json.dump\<close> and \<^verbatim>\<open>yaml.dump\<close> write, and
    the exception, if any, that ends the writing.
\<close>

record ('w, 'a, 'd) collaborators =
  mkdir :: "string \<Rightarrow> 'd \<Rightarrow> error option \<times> 'd"
  super_dict :: "('w, 'a) base_prompt_template_scheme \<Rightarrow> pyval pydict"
  prompt_type :: "('w, 'a) base_prompt_template_scheme \<Rightarrow> error + string"
  open_error :: "string \<Rightarrow> 'd filesystem \<Rightarrow> error option"
  json_dump :: "pyval pydict \<Rightarrow> string \<times> error option"
  yaml_dump :: "pyval pydict \<Rightarrow> string \<times> error option"

text \<open>The property \<^verbatim>\<open>_prompt_type\<close> of the base class, for a subclass that keeps it.\<close>

definition base_prompt_type :: "('w, 'a) base_prompt_template_scheme \<Rightarrow> error + string" where
  "base_prompt_type self = Inl NotImplementedError"

text \<open>The method \<^verbatim>\<open>dict\<close>.\<close>

definition dict_of ::
  "('w, 'a, 'd) collaborators \<Rightarrow> ('w, 'a) base_prompt_template_scheme \<Rightarrow> error + pyval pydict" where
  "dict_of env self =
     (let prompt_dict = super_dict env self in
      case dict_del ''formatters'' prompt_dict of
        Inl e \<Rightarrow> Inl e
      | Inr prompt_dict \<Rightarrow>
          (case prompt_type env self of
             Inl e \<Rightarrow> Inl e
           | Inr t \<Rightarrow> Inr (dict_set ''_type'' (VStr t) prompt_dict)))"

text \<open>
  \<^verbatim>\<open>with open(file_path, "w") as f: dump(prompt_dict, f)\<close>: opening creates or empties the
  file, and what the dump wrote before it returned or raised stays in it.
\<close>

definition write_file ::
  "('w, 'a, 'd) collaborators \<Rightarrow> (pyval pydict \<Rightarrow> string \<times> error option) \<Rightarrow> string \<Rightarrow> pyval pydict
     \<Rightarrow> 'd filesystem \<Rightarrow> (error + unit) \<times> 'd filesystem" where
  "write_file env dump file_path prompt_dict fs =
     (case open_error env file_path fs of
        Some e \<Rightarrow> (Inl e, fs)
      | None \<Rightarrow>
          (case dump prompt_dict of
             (text, raised) \<Rightarrow>
               ((case raised of Some e \<Rightarrow> Inl e | None \<Rightarrow> Inr ()),
                fs\<lparr>fs_files := (fs_files fs)(file_path \<mapsto> text)\<rparr>)))"

definition save ::
  "('w, 'a, 'd) collaborators \<Rightarrow> ('w, 'a) base_prompt_template_scheme \<Rightarrow> path
     \<Rightarrow> 'd filesystem \<Rightarrow> (error + unit) \<times> 'd filesystem" where
  "save env self file_path fs =
     (if partial_variables self \<noteq> [] then (Inl (ValueError CannotSavePartial), fs)
      else
        (let save_path = file_path;
             directory_path = path_parent save_path
         in case mkdir env directory_path (fs_dirs fs) of
              (Some e, dirs) \<Rightarrow> (Inl e, fs\<lparr>fs_dirs := dirs\<rparr>)
            | (None, dirs) \<Rightarrow>
                (let fs = fs\<lparr>fs_dirs := dirs\<rparr> in
                 case dict_of env self of
                   Inl e \<Rightarrow> (Inl e, fs)
                 | Inr prompt_dict \<Rightarrow>
                     if path_suffix save_path = ''.json''
                     then write_file env (json_dump env) (path_str file_path) prompt_dict fs
                     else if path_suffix save_path = ''.yaml''
                     then write_file env (yaml_dump env) (path_str file_path) prompt_dict fs
                     else (Inl (ValueError (MustBeJsonOrYaml (path_str save_path))), fs))))"

section \<open>Example values\<close>

text \<open>Concrete classes, documents, formatters and templates, for the instances below.\<close>

definition MyDocument_t :: pytype where
  "MyDocument_t = PyType ''MyDocument'' [Document_t]"

definition example_doc :: document where
  "example_doc = \<lparr> page_content = ''This is a joke'', metadata = [(''page'', VStr ''1'')] \<rparr>"

definition example_document :: pyval where
  "example_document = document_value example_doc"

definition example_my_document :: pyval where
  "example_my_document =
     VObj MyDocument_t [(''page_content'', VStr ''hi''), (''metadata'', VDict [])]"

definition three_parameter_formatter :: formatter where
  "three_parameter_formatter =
     \<lparr> fmt_repr = ''<lambda a, b, c>'',
       fmt_parameters = Some 3,
       fmt_call1 = (\<lambda>v. Inl (TypeError ''missing 2 required positional arguments'')),
       fmt_call2 = (\<lambda>v format. Inl (TypeError ''missing 1 required positional argument'')) \<rparr>"

definition exclaim_formatter :: formatter where
  "exclaim_formatter =
     \<lparr> fmt_repr = ''<lambda s>'',
       fmt_parameters = Some 1,
       fmt_call1 = (\<lambda>v. case v of VStr s \<Rightarrow> Inr (VStr (s @ ''!'')) | _ \<Rightarrow> Inl (TypeError ''str expected'')),
       fmt_call2 = (\<lambda>v format. Inl (TypeError ''takes 1 positional argument but 2 were given'')) \<rparr>"

definition example_template :: "nat base_prompt_template" where
  "example_template =
     \<lparr> formatters = PROMPT_DEFAULT_FORMATTERS,
       input_variables = [''page'', ''page_content''],
       output_parser = None,
       partial_variables = [] \<rparr>"

definition raising_template :: "nat base_prompt_template" where
  "raising_template =
     \<lparr> formatters = PROMPT_DEFAULT_FORMATTERS,
       input_variables = [''question''],
       output_parser = None,
       partial_variables = [(''date'', PCallable (\<lambda>w. (Inl (OtherError ''clock unavailable''), w)))] \<rparr>"

definition counting_template :: "nat base_prompt_template" where
  "counting_template =
     \<lparr> formatters = PROMPT_DEFAULT_FORMATTERS,
       input_variables = [''doc''],
       output_parser = None,
       partial_variables =
         [(''lang'', PStr ''en''), (''count'', PCallable (\<lambda>w. (Inr (VInt (int w)), Suc w)))] \<rparr>"

definition example_env :: "(nat, unit, string set) collaborators" where
  "example_env =
     \<lparr> mkdir = (\<lambda>p dirs. (None, insert p dirs)),
       super_dict = (\<lambda>self.
          [(''formatters'', VNone),
           (''input_variables'', VList (map VStr (input_variables self))),
           (''output_parser'', VNone),
           (''partial_variables'', VDict [])]),
       prompt_type = base_prompt_type,
       open_error = (\<lambda>p fs. None),
       json_dump = (\<lambda>d. (''{}'', None)),
       yaml_dump = (\<lambda>d. (''{}'', None)) \<rparr>"

section \<open>The dispatch of the formatter registry\<close>

lemmas type_defs = object_t_def NoneType_t_def int_t_def bool_t_def str_t_def list_t_def
  dict_t_def Serializable_t_def Document_t_def MyDocument_t_def

lemmas example_document_defs = example_document_def document_value_def example_doc_def

lemma issubclass_refl: "issubclass c c"
  by (cases c) simp

lemma isinstance_type_of: "isinstance v (type_of v)"
  by (simp add: isinstance_def issubclass_refl)

lemma first_instance_match_first:
  "isinstance v t \<Longrightarrow> \<forall>(t', f') \<in> set pre. \<not> isinstance v t'
     \<Longrightarrow> first_instance_match (pre @ (t, f) # post) v = Some f"
  by (induction pre) auto

lemma first_instance_match_none:
  "\<forall>(t, f) \<in> set R. \<not> isinstance v t \<Longrightarrow> first_instance_match R v = None"
  by (induction R) auto

lemma no_instance_no_exact:
  assumes "\<forall>(t, f) \<in> set R. \<not> isinstance v t"
  shows "map_of R (type_of v) = None"
proof (cases "map_of R (type_of v)")
  case None
  then show ?thesis .
next
  case (Some f)
  then have "(type_of v, f) \<in> set R" by (rule map_of_SomeD)
  with assms have "\<not> isinstance v (type_of v)" by auto
  then show ?thesis by (simp add: isinstance_type_of)
qed

lemma format_value_exact:
  "map_of R (type_of v) = Some f \<Longrightarrow> format_value (Suc d) R v = apply_formatter d R f v"
  by (simp del: apply_formatter.simps)

lemma format_value_scan:
  "map_of R (type_of v) = None \<Longrightarrow>
   format_value (Suc d) R v =
     (case first_instance_match R v of Some f \<Rightarrow> apply_formatter d R f v | None \<Rightarrow> Inr v)"
  by (simp del: apply_formatter.simps)

text \<open>
  C1. With recursion depth left for the call, \<open>format_value\<close> dispatches as follows. If the
  runtime type of the value is a key of the registry, the formatter under that key is
  applied. Otherwise the entries are scanned in the order of the registry, and the
  formatter of the first entry whose type the value is an instance of is applied: whenever
  the registry splits into \<open>pre\<close>, an entry \<open>(t, g)\<close> and \<open>post\<close>, the value is an instance of
  \<open>t\<close> and of no type in \<open>pre\<close>, it is \<open>g\<close> that is applied. If the value is an instance of no
  type of the registry, the value itself is returned.
\<close>

theorem format_value_dispatch:
  "(map_of R (type_of v) = Some f \<longrightarrow> format_value (Suc d) R v = apply_formatter d R f v)
   \<and> (map_of R (type_of v) = None \<longrightarrow> R = pre @ (t, g) # post \<longrightarrow> isinstance v t
        \<longrightarrow> (\<forall>(t', g') \<in> set pre. \<not> isinstance v t')
        \<longrightarrow> format_value (Suc d) R v = apply_formatter d R g v)
   \<and> ((\<forall>(t, g) \<in> set R. \<not> isinstance v t) \<longrightarrow> format_value (Suc d) R v = Inr v)"
proof (intro conjI impI)
  assume "map_of R (type_of v) = Some f"
  then show "format_value (Suc d) R v = apply_formatter d R f v"
    by (rule format_value_exact)
next
  assume exact: "map_of R (type_of v) = None" and R: "R = pre @ (t, g) # post"
    and inst: "isinstance v t" and earlier: "\<forall>(t', g') \<in> set pre. \<not> isinstance v t'"
  from inst earlier have "first_instance_match (pre @ (t, g) # post) v = Some g"
    by (rule first_instance_match_first)
  with R have "first_instance_match R v = Some g" by simp
  with format_value_scan [OF exact] show "format_value (Suc d) R v = apply_formatter d R g v"
    by (simp del: apply_formatter.simps)
next
  assume none: "\<forall>(t, g) \<in> set R. \<not> isinstance v t"
  from format_value_scan [OF no_instance_no_exact [OF none]] first_instance_match_none [OF none]
  show "format_value (Suc d) R v = Inr v" by simp
qed

text \<open>
  An instance at the default registry: a document is formatted by the entry of its own
  type, an instance of a subclass of \<^verbatim>\<open>Document\<close> by the same entry (the first one it is an
  instance of), and an integer, an instance of no registered type, is returned as it is.
\<close>

theorem format_value_dispatch_witness:
  "format_value (Suc (Suc 0)) PROMPT_DEFAULT_FORMATTERS example_document
     = apply_formatter (Suc 0) PROMPT_DEFAULT_FORMATTERS document_formatter example_document
   \<and> format_value (Suc (Suc 0)) PROMPT_DEFAULT_FORMATTERS example_my_document
     = apply_formatter (Suc 0) PROMPT_DEFAULT_FORMATTERS document_formatter example_my_document
   \<and> format_value (Suc (Suc 0)) PROMPT_DEFAULT_FORMATTERS (VInt 3) = Inr (VInt 3)"
  using
    format_value_dispatch
      [of PROMPT_DEFAULT_FORMATTERS example_document document_formatter "Suc 0"]
    format_value_dispatch
      [of PROMPT_DEFAULT_FORMATTERS example_my_document _ "Suc 0" "[]" Document_t
        document_formatter "[(list_t, list_formatter), (dict_t, dict_formatter)]"]
    format_value_dispatch [of PROMPT_DEFAULT_FORMATTERS "VInt 3" _ "Suc 0"]
  by (simp add: PROMPT_DEFAULT_FORMATTERS_def example_document_defs example_my_document_def
      type_defs isinstance_def del: format_value.simps apply_formatter.simps)

text \<open>
  C4. \<open>apply_formatter\<close> looks at the number of parameters of the formatter. With one
  parameter the formatter is called with the value alone; with two it is called with the
  value and the callback \<open>format_value d R\<close>, the dispatch bound to the same registry; with
  any other number \<open>n\<close> the result is the \<^verbatim>\<open>ValueError\<close> that names the formatter and \<open>n\<close>.
  A formatter whose signature cannot be inspected is called with the value alone.
\<close>

theorem apply_formatter_arity:
  "(fmt_parameters f = Some 1 \<longrightarrow> apply_formatter d R f v = fmt_call1 f v)
   \<and> (fmt_parameters f = Some 2 \<longrightarrow> apply_formatter d R f v = fmt_call2 f v (format_value d R))
   \<and> (fmt_parameters f = Some n \<longrightarrow> n \<noteq> 1 \<longrightarrow> n \<noteq> 2
        \<longrightarrow> apply_formatter d R f v = Inl (ValueError (TooManyArguments (fmt_repr f) n)))
   \<and> (fmt_parameters f = None \<longrightarrow> apply_formatter d R f v = fmt_call1 f v)"
  by simp

theorem apply_formatter_arity_witness:
  "apply_formatter (Suc 0) PROMPT_DEFAULT_FORMATTERS list_formatter
       (VList [VInt 1, example_document])
     = Inr (VList [VInt 1, VStr ''This is a joke''])
   \<and> apply_formatter 0 [] three_parameter_formatter VNone
     = Inl (ValueError (TooManyArguments ''<lambda a, b, c>'' 3))
   \<and> apply_formatter 0 [] exclaim_formatter (VStr ''x'') = Inr (VStr ''x!'')"
  using
    apply_formatter_arity
      [of list_formatter "Suc 0" PROMPT_DEFAULT_FORMATTERS "VList [VInt 1, example_document]" 2]
    apply_formatter_arity [of three_parameter_formatter 0 "[]" VNone 3]
    apply_formatter_arity [of exclaim_formatter 0 "[]" "VStr ''x''" 1]
  by (simp add: list_formatter_def three_parameter_formatter_def exclaim_formatter_def
      PROMPT_DEFAULT_FORMATTERS_def example_document_defs type_defs isinstance_def
      document_formatter_def attrgetter_def)

section \<open>Dictionaries\<close>

lemma keys_Nil [simp]: "keys [] = {}"
  by (simp add: keys_def)

lemma keys_Cons [simp]: "keys ((k, v) # d) = insert k (keys d)"
  by (simp add: keys_def)

lemma keys_append [simp]: "keys (a @ b) = keys a \<union> keys b"
  by (simp add: keys_def)

lemma finite_keys [simp]: "finite (keys d)"
  by (simp add: keys_def)

lemma map_of_None_keys: "map_of d k = None \<longleftrightarrow> k \<notin> keys d"
  by (simp add: keys_def map_of_eq_None_iff)

lemma keys_dict_set [simp]: "keys (dict_set k v d) = insert k (keys d)"
  by (induction d) (auto split: if_splits)

lemma map_of_dict_set [simp]: "map_of (dict_set k v d) = (map_of d)(k \<mapsto> v)"
  by (induction d) auto

lemma map_fst_dict_set:
  "map fst (dict_set k v d) = (if k \<in> keys d then map fst d else map fst d @ [k])"
  by (induction d) auto

lemma dict_set_absent: "k \<notin> keys d \<Longrightarrow> dict_set k v d = d @ [(k, v)]"
  by (induction d) auto

lemma distinct_dict_set [simp]:
  "distinct (map fst (dict_set k v d)) = distinct (map fst d)"
proof (induction d)
  case Nil
  then show ?case by simp
next
  case (Cons p d)
  obtain k' v' where p: "p = (k', v')" by (cases p)
  have "fst ` set (dict_set k v d) = insert k (fst ` set d)"
    using keys_dict_set [of k v d] by (simp add: keys_def)
  with Cons.IH p show ?case by auto
qed

lemma dict_set_twice [simp]: "dict_set k v (dict_set k u d) = dict_set k v d"
proof (induction d)
  case Nil
  show ?case by simp
next
  case (Cons p d)
  obtain k' v' where p: "p = (k', v')" by (cases p)
  show ?case
  proof (cases "k' = k")
    case True
    with p show ?thesis by simp
  next
    case False
    with p Cons.IH show ?thesis by simp
  qed
qed

lemma dict_set_commute:
  "k \<noteq> x \<Longrightarrow> x \<in> keys d \<Longrightarrow> dict_set k v (dict_set x a d) = dict_set x a (dict_set k v d)"
proof (induction d)
  case Nil
  then show ?case by simp
next
  case (Cons p d)
  obtain k' v' where p: "p = (k', v')" by (cases p)
  show ?case
  proof (cases "k' = x")
    case True
    with p Cons.prems show ?thesis by simp
  next
    case False
    with p Cons.prems have "x \<in> keys d" by simp
    with Cons.IH Cons.prems have "dict_set k v (dict_set x a d) = dict_set x a (dict_set k v d)"
      by simp
    with p False show ?thesis by simp
  qed
qed

lemma dict_merge_Nil [simp]: "dict_merge a [] = a"
  by (simp add: dict_merge_def)

lemma dict_merge_Cons [simp]: "dict_merge a ((k, v) # b) = dict_merge (dict_set k v a) b"
  by (simp add: dict_merge_def)

lemma keys_dict_merge [simp]: "keys (dict_merge a b) = keys a \<union> keys b"
proof (induction b arbitrary: a)
  case Nil
  show ?case by simp
next
  case (Cons p b)
  obtain k v where p: "p = (k, v)" by (cases p)
  from Cons.IH [of "dict_set k v a"] p show ?case by simp
qed

lemma distinct_dict_merge [simp]:
  "distinct (map fst (dict_merge a b)) = distinct (map fst a)"
proof (induction b arbitrary: a)
  case Nil
  show ?case by simp
next
  case (Cons p b)
  obtain k v where p: "p = (k, v)" by (cases p)
  from Cons.IH [of "dict_set k v a"] p show ?case by simp
qed

lemma map_of_dict_merge:
  "distinct (map fst b) \<Longrightarrow>
   map_of (dict_merge a b) x = (case map_of b x of Some v \<Rightarrow> Some v | None \<Rightarrow> map_of a x)"
proof (induction b arbitrary: a)
  case Nil
  then show ?case by simp
next
  case (Cons p b)
  obtain k v where p: "p = (k, v)" by (cases p)
  with Cons.prems have k: "map_of b k = None" and d: "distinct (map fst b)"
    by (simp_all add: map_of_eq_None_iff)
  have step: "map_of (dict_merge (dict_set k v a) b) x =
      (case map_of b x of Some v \<Rightarrow> Some v | None \<Rightarrow> map_of (dict_set k v a) x)"
    by (rule Cons.IH [OF d])
  show ?case
  proof (cases "x = k")
    case True
    with step k p show ?thesis by simp
  next
    case False
    with step p show ?thesis by (simp split: option.split)
  qed
qed

lemma map_fst_dict_merge:
  "distinct (map fst b) \<Longrightarrow>
   map fst (dict_merge a b) = map fst a @ filter (\<lambda>k. k \<notin> keys a) (map fst b)"
proof (induction b arbitrary: a)
  case Nil
  then show ?case by simp
next
  case (Cons p b)
  obtain k v where p: "p = (k, v)" by (cases p)
  with Cons.prems have k: "k \<notin> keys b" and d: "distinct (map fst b)"
    by (auto simp: keys_def)
  from k have same: "filter (\<lambda>j. j \<notin> insert k (keys a)) (map fst b) = filter (\<lambda>j. j \<notin> keys a) (map fst b)"
    by (auto simp: keys_def intro!: filter_cong)
  from Cons.IH [OF d, of "dict_set k v a"] p same show ?case
    by (simp add: map_fst_dict_set)
qed

section \<open>Construction and its validation\<close>

lemma construct_ok_iff:
  "construct T = Inr T' \<longleftrightarrow>
     T' = T \<and> ''stop'' \<notin> set (input_variables T) \<and> ''stop'' \<notin> keys (partial_variables T)
       \<and> set (input_variables T) \<inter> keys (partial_variables T) = {}"
  by (auto simp: construct_def validate_variable_names_def Let_def)

text \<open>
  C5. The validator fails with a \<^verbatim>\<open>ValueError\<close> (which pydantic reports as its
  \<^verbatim>\<open>ValidationError\<close>) when the reserved name \<^verbatim>\<open>stop\<close> is among the input variables, when
  it is a key of the partial variables, and when the input variables and the keys of the
  partial variables intersect; the last error carries the set of the overlapping names.
  The checks run in this order, the validator fails in exactly these three cases, and
  otherwise it returns the field values it was given. Construction is one run of the
  validator.
\<close>

theorem validate_variable_names_rejects:
  "(''stop'' \<in> set (input_variables T)
      \<longrightarrow> validate_variable_names T = Inl (ValueError InputVariableNamedStop))
   \<and> (''stop'' \<notin> set (input_variables T) \<longrightarrow> ''stop'' \<in> keys (partial_variables T)
        \<longrightarrow> validate_variable_names T = Inl (ValueError PartialVariableNamedStop))
   \<and> (''stop'' \<notin> set (input_variables T) \<longrightarrow> ''stop'' \<notin> keys (partial_variables T)
        \<longrightarrow> set (input_variables T) \<inter> keys (partial_variables T) \<noteq> {}
        \<longrightarrow> validate_variable_names T = Inl (ValueError
              (OverlappingVariables (set (input_variables T) \<inter> keys (partial_variables T)))))
   \<and> ((\<exists>e. validate_variable_names T = Inl (ValueError e)) \<longleftrightarrow>
        (''stop'' \<in> set (input_variables T) \<or> ''stop'' \<in> keys (partial_variables T)
          \<or> set (input_variables T) \<inter> keys (partial_variables T) \<noteq> {}))
   \<and> (validate_variable_names T = Inr T \<longleftrightarrow>
        \<not> (''stop'' \<in> set (input_variables T) \<or> ''stop'' \<in> keys (partial_variables T)
          \<or> set (input_variables T) \<inter> keys (partial_variables T) \<noteq> {}))
   \<and> construct T = validate_variable_names T"
  by (simp add: construct_def validate_variable_names_def Let_def)

theorem validate_variable_names_rejects_witness:
  "construct (example_template\<lparr>input_variables := [''stop'']\<rparr>)
     = Inl (ValueError InputVariableNamedStop)
   \<and> construct (example_template\<lparr>partial_variables := [(''stop'', PStr ''x'')]\<rparr>)
     = Inl (ValueError PartialVariableNamedStop)
   \<and> construct (example_template\<lparr>partial_variables := [(''page'', PStr ''1'')]\<rparr>)
     = Inl (ValueError (OverlappingVariables {''page''}))
   \<and> construct example_template = Inr example_template"
  using
    validate_variable_names_rejects [of "example_template\<lparr>input_variables := [''stop'']\<rparr>"]
    validate_variable_names_rejects
      [of "example_template\<lparr>partial_variables := [(''stop'', PStr ''x'')]\<rparr>"]
    validate_variable_names_rejects
      [of "example_template\<lparr>partial_variables := [(''page'', PStr ''1'')]\<rparr>"]
    validate_variable_names_rejects [of example_template]
  by (simp add: example_template_def)

section \<open>Partial application\<close>

lemma enumerates_sorted: "enumerates sorted_list_of_set"
  by (simp add: enumerates_def)

lemma partial_ok:
  assumes valid: "construct T = Inr T" and los: "enumerates list_of_set"
    and stop: "''stop'' \<notin> keys kwargs"
  shows "partial list_of_set T kwargs =
     Inr (T\<lparr>input_variables := list_of_set (set (input_variables T) - keys kwargs),
            partial_variables := dict_merge (partial_variables T) kwargs\<rparr>)"
proof -
  have fin: "finite (set (input_variables T) - keys kwargs)" by simp
  with los have s: "set (list_of_set (set (input_variables T) - keys kwargs))
      = set (input_variables T) - keys kwargs"
    by (simp add: enumerates_def)
  from valid have "''stop'' \<notin> set (input_variables T)" "''stop'' \<notin> keys (partial_variables T)"
    "set (input_variables T) \<inter> keys (partial_variables T) = {}"
    by (simp_all add: construct_ok_iff)
  with s stop show ?thesis
    by (auto simp: partial_def Let_def construct_ok_iff)
qed

lemma partial_fields:
  assumes valid: "construct T = Inr T" and los: "enumerates list_of_set"
    and stop: "''stop'' \<notin> keys kwargs"
  shows "\<exists>new. partial list_of_set T kwargs = Inr new
      \<and> set (input_variables new) = set (input_variables T) - keys kwargs
      \<and> distinct (input_variables new)
      \<and> partial_variables new = dict_merge (partial_variables T) kwargs
      \<and> formatters new = formatters T \<and> output_parser new = output_parser T
      \<and> base_prompt_template.more new = base_prompt_template.more T"
proof -
  have "finite (set (input_variables T) - keys kwargs)" by simp
  with los have "set (list_of_set (set (input_variables T) - keys kwargs))
      = set (input_variables T) - keys kwargs"
    and "distinct (list_of_set (set (input_variables T) - keys kwargs))"
    by (simp_all add: enumerates_def)
  with partial_ok [OF valid los stop] show ?thesis by simp
qed

lemma partial_result:
  assumes "partial list_of_set T kwargs = Inr new"
  shows "new = T\<lparr>input_variables := list_of_set (set (input_variables T) - keys kwargs),
            partial_variables := dict_merge (partial_variables T) kwargs\<rparr>"
  using assms by (simp add: partial_def Let_def construct_ok_iff)

text \<open>
  C7, as amended. Let the template at \<open>self\<close> have passed the validation of its
  construction, and let the bindings be a dictionary that does not bind the reserved name
  \<^verbatim>\<open>stop\<close>. Then \<open>partial\<close> returns a new object at a fresh address of the store. Its input
  variables are, as a set and without repetition, those of the original minus the bound
  names; its partial variables are those of the original overlaid with the bindings (a
  binding wins over an earlier value of the same name); the formatters, the output parser
  and the fields of the concrete class are those of the original. Every object that was
  in the store, the original among them, is what it was.
\<close>

theorem partial_new_instance:
  assumes "self < length store" and "construct (store ! self) = Inr (store ! self)"
    and "enumerates list_of_set" and "distinct (map fst kwargs)" and "''stop'' \<notin> keys kwargs"
  shows "\<exists>new. partial_method list_of_set store self kwargs = (Inr (length store), store @ [new])
      \<and> set (input_variables new) = set (input_variables (store ! self)) - keys kwargs
      \<and> distinct (input_variables new)
      \<and> keys (partial_variables new) = keys (partial_variables (store ! self)) \<union> keys kwargs
      \<and> (\<forall>k. map_of (partial_variables new) k =
            (case map_of kwargs k of
               Some v \<Rightarrow> Some v
             | None \<Rightarrow> map_of (partial_variables (store ! self)) k))
      \<and> formatters new = formatters (store ! self)
      \<and> output_parser new = output_parser (store ! self)
      \<and> base_prompt_template.more new = base_prompt_template.more (store ! self)
      \<and> (store @ [new]) ! self = store ! self
      \<and> (\<forall>a < length store. (store @ [new]) ! a = store ! a)"
proof -
  from partial_fields [OF assms(2) assms(3) assms(5)]
  obtain new where new: "partial list_of_set (store ! self) kwargs = Inr new"
    and iv: "set (input_variables new) = set (input_variables (store ! self)) - keys kwargs"
      "distinct (input_variables new)"
    and pv: "partial_variables new = dict_merge (partial_variables (store ! self)) kwargs"
    and rest: "formatters new = formatters (store ! self)"
      "output_parser new = output_parser (store ! self)"
      "base_prompt_template.more new = base_prompt_template.more (store ! self)"
    by blast
  from new have "partial_method list_of_set store self kwargs = (Inr (length store), store @ [new])"
    by (simp add: partial_method_def)
  moreover from pv have "keys (partial_variables new)
      = keys (partial_variables (store ! self)) \<union> keys kwargs"
    by simp
  moreover from pv assms(4) have "\<forall>k. map_of (partial_variables new) k =
      (case map_of kwargs k of
         Some v \<Rightarrow> Some v
       | None \<Rightarrow> map_of (partial_variables (store ! self)) k)"
    by (simp add: map_of_dict_merge)
  moreover from assms(1) have "(store @ [new]) ! self = store ! self"
    by (simp add: nth_append)
  moreover have "\<forall>a < length store. (store @ [new]) ! a = store ! a"
    by (simp add: nth_append)
  ultimately show ?thesis using iv rest by blast
qed

theorem partial_new_instance_witness:
  "partial_method sorted_list_of_set [example_template] 0 [(''page'', PStr ''1'')]
     = (Inr 1, [example_template,
                example_template\<lparr>input_variables := [''page_content''],
                                  partial_variables := [(''page'', PStr ''1'')]\<rparr>])"
  using partial_new_instance [of 0 "[example_template]" sorted_list_of_set "[(''page'', PStr ''1'')]"]
  by (simp add: partial_method_def partial_def construct_def validate_variable_names_def
      example_template_def Let_def)

text \<open>
  C7 as stated speaks of every template and all bindings. A binding of \<^verbatim>\<open>stop\<close> makes the
  constructor that \<open>partial\<close> calls raise, and no instance is returned.
\<close>

theorem partial_stop_counterexample:
  "partial_method sorted_list_of_set [example_template] 0 [(''stop'', PStr ''foo'')]
     = (Inl (ValueError PartialVariableNamedStop), [example_template])"
  by (simp add: partial_method_def partial_def construct_def validate_variable_names_def
      example_template_def Let_def)

text \<open>
  C8 as stated: a binding key that is not a declared input variable makes \<open>partial\<close> fail.
  The method has no such check. Here \<^verbatim>\<open>author\<close> is not an input variable of the template,
  and \<open>partial\<close> returns a template that has it as a partial variable.
\<close>

theorem partial_unknown_key_counterexample:
  "''author'' \<notin> set (input_variables example_template)
   \<and> partial sorted_list_of_set example_template [(''author'', PStr ''foo'')]
       = Inr (example_template\<lparr>partial_variables := [(''author'', PStr ''foo'')]\<rparr>)"
  by (simp add: partial_def construct_def validate_variable_names_def
      example_template_def Let_def)

text \<open>
  C8, as amended. For a template that passed the validation of its construction, a binding
  key that is not a declared input variable, and is not the reserved name \<^verbatim>\<open>stop\<close>, does
  not make \<open>partial\<close> fail: it returns a template with the same set of input variables and
  with the key bound in the partial variables.
\<close>

theorem partial_unknown_key_accepted:
  assumes "construct T = Inr T" and "enumerates list_of_set"
    and "k \<notin> set (input_variables T)" and "k \<noteq> ''stop''"
  shows "\<exists>new. partial list_of_set T [(k, x)] = Inr new
      \<and> set (input_variables new) = set (input_variables T)
      \<and> map_of (partial_variables new) k = Some x"
proof -
  from assms(4) have "''stop'' \<notin> keys [(k, x)]" by auto
  from partial_fields [OF assms(1) assms(2) this]
  obtain new where "partial list_of_set T [(k, x)] = Inr new"
    and "set (input_variables new) = set (input_variables T) - keys [(k, x)]"
    and "partial_variables new = dict_merge (partial_variables T) [(k, x)]"
    by blast
  with assms(3) show ?thesis by auto
qed

theorem partial_unknown_key_accepted_witness:
  "\<exists>new. partial sorted_list_of_set example_template [(''author'', PStr ''foo'')] = Inr new
      \<and> set (input_variables new) = {''page'', ''page_content''}
      \<and> map_of (partial_variables new) ''author'' = Some (PStr ''foo'')"
  using partial_unknown_key_accepted [of example_template sorted_list_of_set "''author''" "PStr ''foo''"]
    enumerates_sorted
  by (simp add: construct_def validate_variable_names_def example_template_def Let_def insert_commute)

text \<open>
  C10. Whatever order Python gives to the elements of a set: when \<open>partial\<close> returns a
  template, its input variables are, as a set, those of the original minus the keys of the
  bindings, and it does return one for every validated template and bindings without
  \<^verbatim>\<open>stop\<close>. The order is not that of the original in general: the new list is computed
  from the set alone, so there are a template with distinct input variables and bindings
  for which the new list differs from the original list with the bound names removed.
\<close>

theorem partial_input_variables_set_not_order:
  assumes los: "enumerates list_of_set"
  shows "(partial list_of_set T kwargs = Inr new
            \<longrightarrow> set (input_variables new) = set (input_variables T) - keys kwargs)
     \<and> (construct T = Inr T \<longrightarrow> ''stop'' \<notin> keys kwargs
            \<longrightarrow> (\<exists>new. partial list_of_set T kwargs = Inr new))
     \<and> (\<exists>(U :: 'w base_prompt_template) b U'.
            distinct (input_variables U) \<and> partial list_of_set U b = Inr U'
            \<and> input_variables U' \<noteq> filter (\<lambda>v. v \<notin> keys b) (input_variables U))"
proof (intro conjI impI)
  assume "partial list_of_set T kwargs = Inr new"
  from partial_result [OF this]
  have "input_variables new = list_of_set (set (input_variables T) - keys kwargs)"
    by simp
  moreover have "finite (set (input_variables T) - keys kwargs)" by simp
  ultimately show "set (input_variables new) = set (input_variables T) - keys kwargs"
    using los by (simp add: enumerates_def)
next
  assume "construct T = Inr T" and "''stop'' \<notin> keys kwargs"
  from partial_ok [OF this(1) los this(2)]
  show "\<exists>new. partial list_of_set T kwargs = Inr new" by blast
next
  define b :: "'w partial_value pydict" where "b = [(''x'', PStr ''foo'')]"
  define U :: "string list \<Rightarrow> 'w base_prompt_template" where
    "U = (\<lambda>iv. \<lparr> formatters = [], input_variables = iv, output_parser = None,
                 partial_variables = [] \<rparr>)"
  define L where "L = list_of_set {''a'', ''b''}"
  have valid: "construct (U iv) = Inr (U iv)" if "''stop'' \<notin> set iv" for iv
    using that by (simp add: U_def construct_ok_iff)
  have stop: "''stop'' \<notin> keys b" by (simp add: b_def)
  have p1: "partial list_of_set (U [''x'', ''a'', ''b'']) b
      = Inr ((U [''x'', ''a'', ''b''])\<lparr>input_variables := L, partial_variables := b\<rparr>)"
    using partial_ok [OF valid los stop, of "[''x'', ''a'', ''b'']"]
    by (simp add: U_def L_def b_def)
  have e: "{''x'', ''b'', ''a''} - {''x''} = {''a'', ''b''}" by auto
  have p2: "partial list_of_set (U [''x'', ''b'', ''a'']) b
      = Inr ((U [''x'', ''b'', ''a''])\<lparr>input_variables := L, partial_variables := b\<rparr>)"
    using partial_ok [OF valid los stop, of "[''x'', ''b'', ''a'']"]
    by (simp add: U_def L_def b_def e)
  show "\<exists>(U :: 'w base_prompt_template) b U'.
            distinct (input_variables U) \<and> partial list_of_set U b = Inr U'
            \<and> input_variables U' \<noteq> filter (\<lambda>v. v \<notin> keys b) (input_variables U)"
  proof (cases "L = [''a'', ''b'']")
    case True
    have "distinct (input_variables (U [''x'', ''b'', ''a'']))" by (simp add: U_def)
    moreover have "input_variables ((U [''x'', ''b'', ''a''])\<lparr>input_variables := L, partial_variables := b\<rparr>)
        \<noteq> filter (\<lambda>v. v \<notin> keys b) (input_variables (U [''x'', ''b'', ''a'']))"
      using True by (simp add: U_def b_def)
    ultimately show ?thesis using p2 by blast
  next
    case False
    have "distinct (input_variables (U [''x'', ''a'', ''b'']))" by (simp add: U_def)
    moreover have "input_variables ((U [''x'', ''a'', ''b''])\<lparr>input_variables := L, partial_variables := b\<rparr>)
        \<noteq> filter (\<lambda>v. v \<notin> keys b) (input_variables (U [''x'', ''a'', ''b'']))"
      using False by (simp add: U_def b_def)
    ultimately show ?thesis using p1 by blast
  qed
qed

text \<open>
  An instance with the sets listed in sorted order: binding \<^verbatim>\<open>page\<close> leaves \<^verbatim>\<open>page_content\<close>,
  and of the variables \<^verbatim>\<open>topic, adjective, page\<close> it leaves \<^verbatim>\<open>adjective, topic\<close>.
\<close>

theorem partial_input_variables_set_not_order_witness:
  "set (input_variables (example_template\<lparr>input_variables := [''page_content''],
                                          partial_variables := [(''page'', PStr ''1'')]\<rparr>))
     = set (input_variables example_template) - keys [(''page'', PStr ''1'' :: nat partial_value)]
   \<and> (\<exists>new. partial sorted_list_of_set example_template [(''page'', PStr ''1'')] = Inr new)
   \<and> partial sorted_list_of_set
         (example_template\<lparr>input_variables := [''topic'', ''adjective'', ''page'']\<rparr>)
         [(''page'', PStr ''1'')]
       = Inr (example_template\<lparr>input_variables := [''adjective'', ''topic''],
                                partial_variables := [(''page'', PStr ''1'')]\<rparr>)"
proof -
  have bound: "partial sorted_list_of_set example_template [(''page'', PStr ''1'')]
      = Inr (example_template\<lparr>input_variables := [''page_content''],
                               partial_variables := [(''page'', PStr ''1'')]\<rparr>)"
    by (simp add: partial_def construct_def validate_variable_names_def example_template_def
        Let_def)
  have reordered: "partial sorted_list_of_set
        (example_template\<lparr>input_variables := [''topic'', ''adjective'', ''page'']\<rparr>)
        [(''page'', PStr ''1'')]
      = Inr (example_template\<lparr>input_variables := [''adjective'', ''topic''],
                               partial_variables := [(''page'', PStr ''1'')]\<rparr>)"
    by (simp add: partial_def construct_def validate_variable_names_def example_template_def
        Let_def insert_Diff_if)
  have "partial sorted_list_of_set example_template [(''page'', PStr ''1'')]
      = Inr (example_template\<lparr>input_variables := [''page_content''],
                               partial_variables := [(''page'', PStr ''1'')]\<rparr>)
    \<longrightarrow> set (input_variables (example_template\<lparr>input_variables := [''page_content''],
                                          partial_variables := [(''page'', PStr ''1'')]\<rparr>))
     = set (input_variables example_template) - keys [(''page'', PStr ''1'' :: nat partial_value)]"
    by (rule conjunct1 [OF partial_input_variables_set_not_order [OF enumerates_sorted]])
  from this bound
  have "set (input_variables (example_template\<lparr>input_variables := [''page_content''],
                                          partial_variables := [(''page'', PStr ''1'')]\<rparr>))
     = set (input_variables example_template) - keys [(''page'', PStr ''1'' :: nat partial_value)]"
    by (rule mp)
  moreover from bound
  have "\<exists>new. partial sorted_list_of_set example_template [(''page'', PStr ''1'')] = Inr new"
    by (rule exI)
  ultimately show ?thesis using reordered by (intro conjI)
qed

section \<open>Preparing the variables\<close>

lemma resolve_partials_set_present:
  "x \<notin> keys rest \<Longrightarrow> x \<in> keys acc \<Longrightarrow>
   resolve_partials rest (dict_set x a acc) w =
     (case resolve_partials rest acc w of
        (Inl e, w') \<Rightarrow> (Inl e, w')
      | (Inr P, w') \<Rightarrow> (Inr (dict_set x a P), w'))"
proof (induction rest acc w rule: resolve_partials.induct)
  case (1 acc w)
  show ?case by simp
next
  case (2 k s rest acc w)
  then have kx: "k \<noteq> x" and r: "x \<notin> keys rest" by auto
  have comm: "dict_set k (VStr s) (dict_set x a acc) = dict_set x a (dict_set k (VStr s) acc)"
    by (rule dict_set_commute) (use kx 2 in simp_all)
  from 2 r show ?case by (simp add: comm)
next
  case (3 k c rest acc w)
  then have kx: "k \<noteq> x" and r: "x \<notin> keys rest" by auto
  show ?case
  proof (cases "c w")
    case (Pair r w')
    show ?thesis
    proof (cases r)
      case (Inl e)
      with Pair show ?thesis by simp
    next
      case (Inr y)
      have comm: "dict_set k y (dict_set x a acc) = dict_set x a (dict_set k y acc)"
        by (rule dict_set_commute) (use kx 3 in simp_all)
      from Inr Pair 3 r show ?thesis by (simp add: comm)
    qed
  qed
qed

lemma resolve_partials_rebind:
  "distinct (map fst pv) \<Longrightarrow> \<forall>c. (x, PCallable c) \<notin> set pv \<Longrightarrow>
   resolve_partials (dict_set x (PStr s) pv) acc w =
     (case resolve_partials pv acc w of
        (Inl e, w') \<Rightarrow> (Inl e, w')
      | (Inr P, w') \<Rightarrow> (Inr (dict_set x (VStr s) P), w'))"
proof (induction pv acc w rule: resolve_partials.induct)
  case (1 acc w)
  show ?case by simp
next
  case (2 k t rest acc w)
  show ?case
  proof (cases "k = x")
    case True
    with 2 have "x \<notin> keys rest" by (simp add: keys_def)
    from resolve_partials_set_present [OF this, of "dict_set x (VStr t) acc" "VStr s" w] True
    show ?thesis by simp
  next
    case False
    with 2 show ?thesis by simp
  qed
next
  case (3 k c rest acc w)
  then have kx: "k \<noteq> x" by auto
  show ?case
  proof (cases "c w")
    case (Pair r w')
    show ?thesis
    proof (cases r)
      case (Inl e)
      with Pair kx show ?thesis by simp
    next
      case (Inr y)
      with Pair 3 kx show ?thesis by simp
    qed
  qed
qed

text \<open>
  C2, as amended. Let the template have passed the validation of its construction, let
  its partial variables be a dictionary, and let \<open>x\<close> be a name other than \<^verbatim>\<open>stop\<close> that the
  template has not bound to a callable (every declared input variable is such a name).
  Then \<open>partial\<close> with the binding of \<open>x\<close> to a string returns a template, and preparing
  the variables of that template with the remaining variables gives the same result, and
  leaves the world in the same state, as preparing those of the original with \<open>x\<close> bound to
  the string followed by the remaining variables. The abstract \<^verbatim>\<open>format\<close> of a concrete
  class receives its variables from this preparation.
\<close>

theorem partial_then_prepare:
  assumes valid: "construct T = Inr T" and los: "enumerates list_of_set"
    and stop: "x \<noteq> ''stop''"
    and dict: "distinct (map fst (partial_variables T))"
    and nocall: "\<forall>c. (x, PCallable c) \<notin> set (partial_variables T)"
  shows "\<exists>T'. partial list_of_set T [(x, PStr s)] = Inr T'
      \<and> prepare_variables d T' rest w = prepare_variables d T ((x, VStr s) # rest) w"
proof -
  from stop have "''stop'' \<notin> keys [(x, PStr s)]" by auto
  from partial_fields [OF valid los this]
  obtain T' where T': "partial list_of_set T [(x, PStr s)] = Inr T'"
    and pv: "partial_variables T' = dict_merge (partial_variables T) [(x, PStr s)]"
    and fm: "formatters T' = formatters T"
    by blast
  from pv have pv': "partial_variables T' = dict_set x (PStr s) (partial_variables T)" by simp
  have "prepare_variables d T' rest w = prepare_variables d T ((x, VStr s) # rest) w"
    unfolding prepare_variables_def pv' fm resolve_partials_rebind [OF dict nocall]
    by (simp split: prod.splits sum.splits)
  with T' show ?thesis by blast
qed

theorem partial_then_prepare_witness:
  "\<exists>T'. partial sorted_list_of_set example_template [(''page'', PStr ''1'')] = Inr T'
      \<and> prepare_variables (Suc (Suc 0)) T' [(''page_content'', example_document)] (0::nat)
          = prepare_variables (Suc (Suc 0)) example_template
              [(''page'', VStr ''1''), (''page_content'', example_document)] 0"
  using partial_then_prepare [of example_template sorted_list_of_set "''page''" "''1''"
      "Suc (Suc 0)" "[(''page_content'', example_document)]" 0] enumerates_sorted
  by (simp add: construct_def validate_variable_names_def example_template_def)

text \<open>
  C2 as stated speaks of every template and every binding. Binding \<^verbatim>\<open>stop\<close> makes \<open>partial\<close>
  raise while the direct supply of \<^verbatim>\<open>stop\<close> is prepared like any other variable. And
  rebinding a name that the template has bound to a callable removes the call: here the
  callable raises, so the direct supply raises and the partial template does not.
\<close>

theorem partial_then_prepare_counterexample:
  "partial sorted_list_of_set example_template [(''stop'', PStr ''foo'')]
     = Inl (ValueError PartialVariableNamedStop)
   \<and> prepare_variables (Suc 0) example_template [(''stop'', VStr ''foo'')] (0::nat)
     = (Inr [(''stop'', VStr ''foo'')], 0)
   \<and> partial sorted_list_of_set raising_template [(''date'', PStr ''foo'')]
     = Inr (raising_template\<lparr>partial_variables := [(''date'', PStr ''foo'')]\<rparr>)
   \<and> prepare_variables (Suc 0) (raising_template\<lparr>partial_variables := [(''date'', PStr ''foo'')]\<rparr>) [] (0::nat)
     = (Inr [(''date'', VStr ''foo'')], 0)
   \<and> prepare_variables (Suc 0) raising_template [(''date'', VStr ''foo'')] (0::nat)
     = (Inl (OtherError ''clock unavailable''), 0)"
  by (simp add: partial_def construct_def validate_variable_names_def prepare_variables_def
      example_template_def raising_template_def Let_def PROMPT_DEFAULT_FORMATTERS_def
      type_defs isinstance_def)

lemma resolve_partials_append:
  "resolve_partials (a @ b) acc w =
     (case resolve_partials a acc w of
        (Inl e, w1) \<Rightarrow> (Inl e, w1)
      | (Inr A, w1) \<Rightarrow> resolve_partials b A w1)"
proof (induction a acc w rule: resolve_partials.induct)
  case (1 acc w)
  show ?case by simp
next
  case (2 k s rest acc w)
  then show ?case by simp
next
  case (3 k c rest acc w)
  show ?case
  proof (cases "c w")
    case (Pair r w')
    with 3 show ?thesis by (cases r) simp_all
  qed
qed

lemma resolve_partials_keep:
  "resolve_partials pv acc w = (Inr P, w') \<Longrightarrow> k \<notin> keys pv \<Longrightarrow> map_of P k = map_of acc k"
proof (induction pv acc w rule: resolve_partials.induct)
  case (1 acc w)
  then show ?case by simp
next
  case (2 j s rest acc w)
  then show ?case by simp
next
  case (3 j c rest acc w)
  show ?case
  proof (cases "c w")
    case (Pair r w1)
    with 3 show ?thesis by (cases r) simp_all
  qed
qed

lemma resolve_partials_keys:
  "resolve_partials pv acc w = (Inr P, w') \<Longrightarrow> distinct (map fst pv) \<Longrightarrow>
   keys pv \<inter> keys acc = {} \<Longrightarrow> map fst P = map fst acc @ map fst pv"
proof (induction pv acc w rule: resolve_partials.induct)
  case (1 acc w)
  then show ?case by simp
next
  case (2 j s rest acc w)
  then have "j \<notin> keys acc" and "j \<notin> keys rest" and "keys rest \<inter> keys acc = {}"
    by (auto simp: keys_def)
  with 2 show ?case by (simp add: map_fst_dict_set)
next
  case (3 j c rest acc w)
  then have j: "j \<notin> keys acc" "j \<notin> keys rest" "keys rest \<inter> keys acc = {}"
    by (auto simp: keys_def)
  show ?case
  proof (cases "c w")
    case (Pair r w1)
    with 3 j show ?thesis by (cases r) (simp_all add: map_fst_dict_set)
  qed
qed

lemma resolve_partials_string:
  "resolve_partials pv acc w = (Inr P, w') \<Longrightarrow> distinct (map fst pv) \<Longrightarrow>
   (k, PStr s) \<in> set pv \<Longrightarrow> map_of P k = Some (VStr s)"
proof (induction pv acc w rule: resolve_partials.induct)
  case (1 acc w)
  then show ?case by simp
next
  case (2 j t rest acc w)
  show ?case
  proof (cases "(k, PStr s) \<in> set rest")
    case True
    with 2 show ?thesis by simp
  next
    case False
    with 2 have eq: "j = k" "t = s" and "k \<notin> keys rest" by (auto simp: keys_def)
    with 2 resolve_partials_keep [of rest "dict_set k (VStr s) acc" w P w' k]
    show ?thesis by simp
  qed
next
  case (3 j c rest acc w)
  show ?case
  proof (cases "c w")
    case (Pair r w1)
    with 3 show ?thesis by (cases r) simp_all
  qed
qed

lemma resolve_partials_callable:
  assumes res: "resolve_partials (pre @ (k, PCallable c) # post) [] w = (Inr P, w')"
    and dist: "distinct (map fst (pre @ (k, PCallable c) # post))"
  shows "\<exists>P0 w0 x w1. resolve_partials pre [] w = (Inr P0, w0) \<and> c w0 = (Inr x, w1)
      \<and> map_of P k = Some x"
proof (cases "resolve_partials pre [] w")
  case (Pair r w0)
  show ?thesis
  proof (cases r)
    case (Inl e)
    with Pair res show ?thesis by (simp add: resolve_partials_append)
  next
    case (Inr P0)
    with Pair res have step: "resolve_partials ((k, PCallable c) # post) P0 w0 = (Inr P, w')"
      by (simp add: resolve_partials_append)
    show ?thesis
    proof (cases "c w0")
      case cw: (Pair rx w1)
      show ?thesis
      proof (cases rx)
        case (Inl e)
        with cw step show ?thesis by simp
      next
        case x: (Inr x)
        with cw step have "resolve_partials post (dict_set k x P0) w1 = (Inr P, w')" by simp
        moreover from dist have "k \<notin> keys post" by (simp add: keys_def)
        ultimately have "map_of P k = map_of (dict_set k x P0) k"
          by (rule resolve_partials_keep)
        with Pair Inr cw x show ?thesis by simp
      qed
    qed
  qed
qed

lemma dict_comprehension_values:
  fixes g :: "'v \<Rightarrow> error + 'u"
  defines "F \<equiv> (\<lambda>(k, v). case g v of Inl e \<Rightarrow> Inl e | Inr y \<Rightarrow> Inr (k, y))"
  shows "dict_comprehension F items acc = Inr D \<Longrightarrow> distinct (map fst items) \<Longrightarrow>
     keys items \<inter> keys acc = {} \<Longrightarrow>
     map fst D = map fst acc @ map fst items
       \<and> (\<forall>(k, v) \<in> set items. \<exists>y. g v = Inr y \<and> map_of D k = Some y)
       \<and> (\<forall>k \<in> keys acc. map_of D k = map_of acc k)"
proof (induction items arbitrary: acc)
  case Nil
  then show ?case by simp
next
  case (Cons p items)
  obtain k v where p: "p = (k, v)" by (cases p)
  with Cons.prems have k: "k \<notin> keys items" "k \<notin> keys acc" and d: "distinct (map fst items)"
    and disj: "keys items \<inter> keys acc = {}"
    by (auto simp: keys_def)
  from Cons.prems(1) p obtain y where y: "g v = Inr y"
    and rest: "dict_comprehension F items (dict_set k y acc) = Inr D"
    by (cases "g v") (simp_all add: F_def)
  from k disj have "keys items \<inter> keys (dict_set k y acc) = {}" by auto
  from Cons.IH [OF rest d this]
  have IH: "map fst D = map fst (dict_set k y acc) @ map fst items"
    "\<forall>(k, v) \<in> set items. \<exists>y. g v = Inr y \<and> map_of D k = Some y"
    "\<forall>j \<in> keys (dict_set k y acc). map_of D j = map_of (dict_set k y acc) j"
    by blast+
  from IH(1) k p have "map fst D = map fst acc @ map fst (p # items)"
    by (simp add: map_fst_dict_set)
  moreover from IH(3) have "map_of D k = Some y" by simp
  with y p IH(2) have "\<forall>(k, v) \<in> set (p # items). \<exists>y. g v = Inr y \<and> map_of D k = Some y"
    by simp
  moreover from IH(3) k have "\<forall>j \<in> keys acc. map_of D j = map_of acc j" by auto
  ultimately show ?case by blast
qed

lemma dict_comprehension_succeeds:
  fixes g :: "'v \<Rightarrow> error + 'u"
  defines "F \<equiv> (\<lambda>(k, v). case g v of Inl e \<Rightarrow> Inl e | Inr y \<Rightarrow> Inr (k, y))"
  shows "\<forall>(k, v) \<in> set items. \<exists>y. g v = Inr y \<Longrightarrow> \<exists>D. dict_comprehension F items acc = Inr D"
proof (induction items arbitrary: acc)
  case Nil
  show ?case by simp
next
  case (Cons p items)
  obtain k v where p: "p = (k, v)" by (cases p)
  with Cons.prems obtain y where y: "g v = Inr y" by auto
  from Cons.prems have "\<forall>(k, v) \<in> set items. \<exists>y. g v = Inr y" by simp
  from Cons.IH [OF this, of "dict_set k y acc"] p y show ?case by (simp add: F_def)
qed

text \<open>
  C3. Let the partial variables and the supplied mapping be dictionaries. Whenever
  \<open>prepare_variables\<close> returns a mapping \<open>D\<close>:
  \<^item> the partial variables were resolved first, to a mapping \<open>P\<close> with the same keys in the
    same order: a string is there as it is, and a callable was called during this
    preparation, in the state of the world that the resolution of the entries before it
    had left, and what it returned is its value in \<open>P\<close>;
  \<^item> the keys of \<open>D\<close> are those of the partial variables followed by the supplied keys
    that are new;
  \<^item> the merged mapping is \<open>P\<close> overlaid with the supplied mapping (\<open>++\<close>: the supplied
    value wins), and \<open>D\<close> holds, under each of its keys, the result of \<open>format_value\<close> with
    the registry of the template on the merged value.
  If the resolution raises, so does the preparation, with the same error; and if the
  resolution returns and \<open>format_value\<close> returns for every merged value, the preparation
  returns a mapping.
\<close>

theorem prepare_variables_steps:
  assumes dp: "distinct (map fst (partial_variables T))" and dk: "distinct (map fst kwargs)"
  shows "(prepare_variables d T kwargs w = (Inr D, w') \<longrightarrow>
          (\<exists>P. resolve_partials (partial_variables T) [] w = (Inr P, w')
             \<and> map fst P = map fst (partial_variables T)
             \<and> (\<forall>k s. (k, PStr s) \<in> set (partial_variables T) \<longrightarrow> map_of P k = Some (VStr s))
             \<and> (\<forall>pre k c post. partial_variables T = pre @ (k, PCallable c) # post \<longrightarrow>
                   (\<exists>P0 w0 x w1. resolve_partials pre [] w = (Inr P0, w0) \<and> c w0 = (Inr x, w1)
                      \<and> map_of P k = Some x))
             \<and> map fst D = map fst (partial_variables T)
                   @ filter (\<lambda>k. k \<notin> keys (partial_variables T)) (map fst kwargs)
             \<and> (\<forall>k v. (map_of P ++ map_of kwargs) k = Some v \<longrightarrow>
                   (\<exists>y. format_value d (formatters T) v = Inr y \<and> map_of D k = Some y))))
     \<and> (\<forall>e. resolve_partials (partial_variables T) [] w = (Inl e, w')
            \<longrightarrow> prepare_variables d T kwargs w = (Inl e, w'))
     \<and> (\<forall>P. resolve_partials (partial_variables T) [] w = (Inr P, w')
            \<longrightarrow> (\<forall>k v. (map_of P ++ map_of kwargs) k = Some v
                   \<longrightarrow> (\<exists>y. format_value d (formatters T) v = Inr y))
            \<longrightarrow> (\<exists>D. prepare_variables d T kwargs w = (Inr D, w')))"
proof (intro conjI impI allI)
  let ?F = "\<lambda>(k, v). case format_value d (formatters T) v of
                      Inl e \<Rightarrow> Inl e
                    | Inr y \<Rightarrow> Inr (k, y)"
  assume prep: "prepare_variables d T kwargs w = (Inr D, w')"
  obtain r w1 where res: "resolve_partials (partial_variables T) [] w = (r, w1)"
    by (cases "resolve_partials (partial_variables T) [] w")
  with prep obtain P where P: "r = Inr P" and w1: "w1 = w'"
    and comp: "dict_comprehension ?F (dict_merge P kwargs) [] = Inr D"
    by (cases r) (simp_all add: prepare_variables_def)
  from res P w1 have resP: "resolve_partials (partial_variables T) [] w = (Inr P, w')" by simp
  from resolve_partials_keys [OF resP dp] have kP: "map fst P = map fst (partial_variables T)"
    by simp
  then have keysP: "keys P = keys (partial_variables T)" by (simp add: keys_def)
  from kP dp have dP: "distinct (map fst P)" by simp
  have str: "\<forall>k s. (k, PStr s) \<in> set (partial_variables T) \<longrightarrow> map_of P k = Some (VStr s)"
    using resolve_partials_string [OF resP dp] by blast
  have call: "\<forall>pre k c post. partial_variables T = pre @ (k, PCallable c) # post \<longrightarrow>
      (\<exists>P0 w0 x w1. resolve_partials pre [] w = (Inr P0, w0) \<and> c w0 = (Inr x, w1)
         \<and> map_of P k = Some x)"
  proof (intro allI impI)
    fix pre k c post
    assume split: "partial_variables T = pre @ (k, PCallable c) # post"
    with resP dp show "\<exists>P0 w0 x w1. resolve_partials pre [] w = (Inr P0, w0)
        \<and> c w0 = (Inr x, w1) \<and> map_of P k = Some x"
      using resolve_partials_callable [of pre k c post w P w'] by simp
  qed
  from dP have dM: "distinct (map fst (dict_merge P kwargs))" by simp
  from dict_comprehension_values [OF comp dM]
  have kD: "map fst D = map fst (dict_merge P kwargs)"
    and vD: "\<forall>(k, v) \<in> set (dict_merge P kwargs).
        \<exists>y. format_value d (formatters T) v = Inr y \<and> map_of D k = Some y"
    by simp_all
  from kD dk kP keysP have order: "map fst D = map fst (partial_variables T)
      @ filter (\<lambda>k. k \<notin> keys (partial_variables T)) (map fst kwargs)"
    by (simp add: map_fst_dict_merge)
  have fmt: "\<forall>k v. (map_of P ++ map_of kwargs) k = Some v \<longrightarrow>
      (\<exists>y. format_value d (formatters T) v = Inr y \<and> map_of D k = Some y)"
  proof (intro allI impI)
    fix k v
    assume "(map_of P ++ map_of kwargs) k = Some v"
    with dk have "map_of (dict_merge P kwargs) k = Some v"
      by (simp add: map_of_dict_merge map_add_def)
    then have "(k, v) \<in> set (dict_merge P kwargs)" by (rule map_of_SomeD)
    with vD show "\<exists>y. format_value d (formatters T) v = Inr y \<and> map_of D k = Some y" by blast
  qed
  from resP kP str call order fmt
  show "\<exists>P. resolve_partials (partial_variables T) [] w = (Inr P, w')
      \<and> map fst P = map fst (partial_variables T)
      \<and> (\<forall>k s. (k, PStr s) \<in> set (partial_variables T) \<longrightarrow> map_of P k = Some (VStr s))
      \<and> (\<forall>pre k c post. partial_variables T = pre @ (k, PCallable c) # post \<longrightarrow>
            (\<exists>P0 w0 x w1. resolve_partials pre [] w = (Inr P0, w0) \<and> c w0 = (Inr x, w1)
               \<and> map_of P k = Some x))
      \<and> map fst D = map fst (partial_variables T)
            @ filter (\<lambda>k. k \<notin> keys (partial_variables T)) (map fst kwargs)
      \<and> (\<forall>k v. (map_of P ++ map_of kwargs) k = Some v \<longrightarrow>
            (\<exists>y. format_value d (formatters T) v = Inr y \<and> map_of D k = Some y))"
    by blast
next
  fix e
  assume "resolve_partials (partial_variables T) [] w = (Inl e, w')"
  then show "prepare_variables d T kwargs w = (Inl e, w')"
    by (simp add: prepare_variables_def)
next
  fix P
  assume resP: "resolve_partials (partial_variables T) [] w = (Inr P, w')"
    and ok: "\<forall>k v. (map_of P ++ map_of kwargs) k = Some v
        \<longrightarrow> (\<exists>y. format_value d (formatters T) v = Inr y)"
  from resolve_partials_keys [OF resP dp] dp have dP: "distinct (map fst P)" by simp
  then have dM: "distinct (map fst (dict_merge P kwargs))" by simp
  have "\<forall>(k, v) \<in> set (dict_merge P kwargs). \<exists>y. format_value d (formatters T) v = Inr y"
  proof (intro ballI, clarify)
    fix k v
    assume "(k, v) \<in> set (dict_merge P kwargs)"
    with dM have "map_of (dict_merge P kwargs) k = Some v" by simp
    with dk have "(map_of P ++ map_of kwargs) k = Some v"
      by (simp add: map_of_dict_merge map_add_def)
    with ok show "\<exists>y. format_value d (formatters T) v = Inr y" by auto
  qed
  from dict_comprehension_succeeds [OF this, of "[]"] resP
  show "\<exists>D. prepare_variables d T kwargs w = (Inr D, w')"
    by (simp add: prepare_variables_def)
qed

text \<open>
  An instance: the supplied \<^verbatim>\<open>lang\<close> wins over the partial string, the callable reads the
  counter 5 and leaves it at 6, and the document is formatted to its text.
\<close>

theorem prepare_variables_steps_witness:
  "prepare_variables (Suc (Suc 0)) counting_template
      [(''doc'', example_document), (''lang'', VStr ''fr'')] 5
     = (Inr [(''lang'', VStr ''fr''), (''count'', VInt 5), (''doc'', VStr ''This is a joke'')], 6)"
  using prepare_variables_steps [of counting_template
      "[(''doc'', example_document), (''lang'', VStr ''fr'')]" "Suc (Suc 0)" 5
      "[(''lang'', VStr ''fr''), (''count'', VInt 5), (''doc'', VStr ''This is a joke'')]" 6]
  by (simp add: prepare_variables_def counting_template_def example_document_defs
      PROMPT_DEFAULT_FORMATTERS_def type_defs isinstance_def document_formatter_def attrgetter_def)

section \<open>Formatting a document: the result\<close>

lemma map_of_Some_keys: "k \<in> keys d \<Longrightarrow> \<exists>v. map_of d k = Some v"
  by (cases "map_of d k") (simp_all add: map_of_None_keys)

lemma remdups_snoc: "remdups (ys @ [x]) = filter (\<lambda>k. k \<noteq> x) (remdups ys) @ [x]"
  by (induction ys) auto

lemma first_occurrences_Cons:
  "rev (remdups (rev (x # xs))) = x # filter (\<lambda>k. k \<noteq> x) (rev (remdups (rev xs)))"
  by (simp add: remdups_snoc rev_filter)

lemma fold_dict_set_keys:
  "map fst (fold (\<lambda>k. dict_set k (g k)) xs acc)
     = map fst acc @ filter (\<lambda>k. k \<notin> keys acc) (rev (remdups (rev xs)))"
proof (induction xs arbitrary: acc)
  case Nil
  show ?case by simp
next
  case (Cons x xs)
  have IH: "map fst (fold (\<lambda>k. dict_set k (g k)) xs (dict_set x (g x) acc))
      = map fst (dict_set x (g x) acc)
        @ filter (\<lambda>k. k \<notin> insert x (keys acc)) (rev (remdups (rev xs)))"
    using Cons.IH [of "dict_set x (g x) acc"] by simp
  show ?case
  proof (cases "x \<in> keys acc")
    case True
    then have "insert x (keys acc) = keys acc" by auto
    moreover from True have "filter (\<lambda>k. k \<noteq> x \<and> k \<notin> keys acc) (rev (remdups (rev xs)))
        = filter (\<lambda>k. k \<notin> keys acc) (rev (remdups (rev xs)))"
      by (intro filter_cong) auto
    ultimately show ?thesis using IH True
      by (simp add: first_occurrences_Cons map_fst_dict_set del: rev.simps)
  next
    case False
    have "filter (\<lambda>k. k \<notin> insert x (keys acc)) (rev (remdups (rev xs)))
        = filter (\<lambda>k. k \<noteq> x \<and> k \<notin> keys acc) (rev (remdups (rev xs)))"
      by (intro filter_cong) auto
    with IH False show ?thesis
      by (simp add: first_occurrences_Cons map_fst_dict_set del: rev.simps)
  qed
qed

lemma fold_dict_set_lookup:
  "k \<in> set xs \<Longrightarrow> map_of (fold (\<lambda>k. dict_set k (g k)) xs acc) k = Some (g k)"
proof (induction xs arbitrary: acc)
  case Nil
  then show ?case by simp
next
  case (Cons x xs)
  show ?case
  proof (cases "k \<in> set xs")
    case True
    with Cons.IH show ?thesis by simp
  next
    case False
    with Cons.prems have "k = x" by simp
    moreover have "map_of (fold (\<lambda>k. dict_set k (g k)) xs A) j = map_of A j"
      if "j \<notin> set xs" for j A
      using that by (induction xs arbitrary: A) simp_all
    ultimately show ?thesis using False by simp
  qed
qed

lemma dict_comprehension_getitem:
  "set xs \<subseteq> keys B \<Longrightarrow>
   dict_comprehension (\<lambda>k. case getitem B k of Inl e \<Rightarrow> Inl e | Inr v \<Rightarrow> Inr (k, v)) xs acc
     = Inr (fold (\<lambda>k. dict_set k (the (map_of B k))) xs acc)"
proof (induction xs arbitrary: acc)
  case Nil
  show ?case by simp
next
  case (Cons x xs)
  then have "x \<in> keys B" by simp
  from map_of_Some_keys [OF this] obtain v where "map_of B x = Some v" ..
  with Cons show ?case by (simp add: getitem_def)
qed

lemma base_info_lookup:
  assumes "distinct (map fst m)"
  shows "map_of (dict_merge [(''page_content'', VStr c)] m) k =
     (case map_of m k of
        Some v \<Rightarrow> Some v
      | None \<Rightarrow> if k = ''page_content'' then Some (VStr c) else None)"
  using assms by (simp add: map_of_dict_merge split: option.split)

text \<open>
  C6. Let the metadata of the document be a dictionary. The candidate mapping holds the
  text of the document under \<^verbatim>\<open>page_content\<close> and every metadata entry, the metadata winning
  where it has the key \<^verbatim>\<open>page_content\<close> itself. If an input variable of the template is
  neither \<^verbatim>\<open>page_content\<close> nor a metadata key, \<open>format_document\<close> fails with the
  \<^verbatim>\<open>ValueError\<close> that lists the input variables other than \<^verbatim>\<open>page_content\<close> and the missing
  names. Otherwise its result is what the \<^verbatim>\<open>format\<close> method of the template returns for a
  mapping whose keys are the input variables, each once and in the order of its first
  occurrence in the declaration, and whose values are those of the candidate mapping.
\<close>

theorem format_document_result:
  fixes doc :: document and prompt :: "('w, 'a) base_prompt_template_scheme"
  assumes meta: "distinct (map fst (metadata doc))"
  defines "base_info \<equiv> dict_merge [(''page_content'', VStr (page_content doc))] (metadata doc)"
  defines "missing \<equiv> set (input_variables prompt) - insert ''page_content'' (keys (metadata doc))"
  shows "(\<forall>k. map_of base_info k =
            (case map_of (metadata doc) k of
               Some v \<Rightarrow> Some v
             | None \<Rightarrow> if k = ''page_content'' then Some (VStr (page_content doc)) else None))
     \<and> (missing \<noteq> {} \<longrightarrow>
          format_document list_of_set format doc prompt =
            Inl (ValueError (MissingMetadata
                  (filter (\<lambda>iv. iv \<noteq> ''page_content'') (input_variables prompt))
                  (list_of_set missing))))
     \<and> (missing = {} \<longrightarrow>
          (\<exists>document_info.
             format_document list_of_set format doc prompt = Inr (format prompt document_info)
             \<and> map fst document_info = rev (remdups (rev (input_variables prompt)))
             \<and> (\<forall>k \<in> set (input_variables prompt).
                   map_of document_info k = map_of base_info k)))"
proof (intro conjI impI allI)
  fix k
  show "map_of base_info k =
      (case map_of (metadata doc) k of
         Some v \<Rightarrow> Some v
       | None \<Rightarrow> if k = ''page_content'' then Some (VStr (page_content doc)) else None)"
    unfolding base_info_def using meta by (rule base_info_lookup)
next
  have m: "set (input_variables prompt) - keys base_info = missing"
    by (auto simp: base_info_def missing_def)
  have fin: "finite missing" by (simp add: missing_def)
  {
    assume "missing \<noteq> {}"
    with fin have "card missing > 0" by (simp add: card_gt_0_iff)
    with m show "format_document list_of_set format doc prompt =
        Inl (ValueError (MissingMetadata
              (filter (\<lambda>iv. iv \<noteq> ''page_content'') (input_variables prompt))
              (list_of_set missing)))"
      by (simp add: format_document_def Let_def base_info_def [symmetric])
  }
  {
    assume none: "missing = {}"
    with m have sub: "set (input_variables prompt) \<subseteq> keys base_info" by auto
    define document_info where
      "document_info = fold (\<lambda>k. dict_set k (the (map_of base_info k))) (input_variables prompt) []"
    from dict_comprehension_getitem [OF sub, of "[]"] m none
    have "format_document list_of_set format doc prompt = Inr (format prompt document_info)"
      by (simp add: format_document_def Let_def base_info_def [symmetric] document_info_def)
    moreover have "map fst document_info = rev (remdups (rev (input_variables prompt)))"
      by (simp add: document_info_def fold_dict_set_keys)
    moreover have "\<forall>k \<in> set (input_variables prompt). map_of document_info k = map_of base_info k"
    proof
      fix k
      assume k: "k \<in> set (input_variables prompt)"
      with sub have "k \<in> keys base_info" by auto
      from map_of_Some_keys [OF this] obtain v where "map_of base_info k = Some v" ..
      with k show "map_of document_info k = map_of base_info k"
        by (simp add: document_info_def fold_dict_set_lookup)
    qed
    ultimately show "\<exists>document_info.
        format_document list_of_set format doc prompt = Inr (format prompt document_info)
        \<and> map fst document_info = rev (remdups (rev (input_variables prompt)))
        \<and> (\<forall>k \<in> set (input_variables prompt). map_of document_info k = map_of base_info k)"
      by blast
  }
qed

text \<open>
  The example of the docstring, with a \<^verbatim>\<open>format\<close> that returns the mapping it receives; and
  a template that asks for an \<^verbatim>\<open>author\<close> the document does not have.
\<close>

theorem format_document_result_witness:
  "format_document sorted_list_of_set (\<lambda>prompt kwargs. kwargs) example_doc example_template
     = Inr [(''page'', VStr ''1''), (''page_content'', VStr ''This is a joke'')]
   \<and> format_document sorted_list_of_set (\<lambda>prompt kwargs. kwargs) example_doc
        (example_template\<lparr>input_variables := [''page_content'', ''author'', ''page'']\<rparr>)
     = Inl (ValueError (MissingMetadata [''author'', ''page''] [''author'']))"
  using format_document_result [of example_doc example_template sorted_list_of_set
      "\<lambda>prompt kwargs. kwargs"]
    format_document_result [of example_doc
      "example_template\<lparr>input_variables := [''page_content'', ''author'', ''page'']\<rparr>"
      sorted_list_of_set "\<lambda>prompt kwargs. kwargs"]
  by (simp add: format_document_def example_doc_def example_template_def Let_def getitem_def
      insert_Diff_if)

section \<open>Saving a template: the failures\<close>

lemma save_bad_suffix:
  assumes pv: "partial_variables self = []"
    and json: "path_suffix file_path \<noteq> ''.json''" and yaml: "path_suffix file_path \<noteq> ''.yaml''"
  shows "save env self file_path fs =
     (case mkdir env (path_parent file_path) (fs_dirs fs) of
        (Some e, dirs) \<Rightarrow> (Inl e, fs\<lparr>fs_dirs := dirs\<rparr>)
      | (None, dirs) \<Rightarrow>
          (case dict_of env self of
             Inl e \<Rightarrow> (Inl e, fs\<lparr>fs_dirs := dirs\<rparr>)
           | Inr prompt_dict \<Rightarrow>
               (Inl (ValueError (MustBeJsonOrYaml (path_str file_path))), fs\<lparr>fs_dirs := dirs\<rparr>)))"
proof (cases "mkdir env (path_parent file_path) (fs_dirs fs)")
  case (Pair r dirs)
  show ?thesis
  proof (cases r)
    case None
    with Pair pv json yaml show ?thesis
      by (cases "dict_of env self") (simp_all add: save_def Let_def)
  next
    case (Some e)
    with Pair pv show ?thesis by (simp add: save_def Let_def)
  qed
qed

text \<open>
  C9, as amended. \<open>save\<close> fails whenever the template has partial variables, whatever the
  path, and leaves the file system as it was. For a template without partial variables
  and a path whose suffix is neither \<^verbatim>\<open>.json\<close> nor \<^verbatim>\<open>.yaml\<close>, \<open>save\<close> always fails and no
  file is written; the error is the \<^verbatim>\<open>ValueError\<close> that names the path and the two formats
  whenever the parent directory could be made and the dictionary of the template could be
  built.
\<close>

theorem save_failures:
  "(partial_variables self \<noteq> [] \<longrightarrow>
      save env self file_path fs = (Inl (ValueError CannotSavePartial), fs))
   \<and> (partial_variables self = [] \<longrightarrow> path_suffix file_path \<noteq> ''.json''
        \<longrightarrow> path_suffix file_path \<noteq> ''.yaml'' \<longrightarrow>
        (\<exists>e fs'. save env self file_path fs = (Inl e, fs') \<and> fs_files fs' = fs_files fs)
        \<and> (\<forall>dirs prompt_dict.
              mkdir env (path_parent file_path) (fs_dirs fs) = (None, dirs)
              \<longrightarrow> dict_of env self = Inr prompt_dict
              \<longrightarrow> save env self file_path fs =
                    (Inl (ValueError (MustBeJsonOrYaml (path_str file_path))),
                     fs\<lparr>fs_dirs := dirs\<rparr>)))"
proof (intro conjI impI allI)
  assume "partial_variables self \<noteq> []"
  then show "save env self file_path fs = (Inl (ValueError CannotSavePartial), fs)"
    by (simp add: save_def)
next
  assume a: "partial_variables self = []" "path_suffix file_path \<noteq> ''.json''"
    "path_suffix file_path \<noteq> ''.yaml''"
  note eq = save_bad_suffix [OF a, of env fs]
  show "\<exists>e fs'. save env self file_path fs = (Inl e, fs') \<and> fs_files fs' = fs_files fs"
  proof (cases "mkdir env (path_parent file_path) (fs_dirs fs)")
    case (Pair r dirs)
    show ?thesis
    proof (cases r)
      case None
      with Pair eq show ?thesis by (cases "dict_of env self") simp_all
    next
      case (Some e)
      with Pair eq show ?thesis by simp
    qed
  qed
next
  fix dirs prompt_dict
  assume a: "partial_variables self = []" "path_suffix file_path \<noteq> ''.json''"
    "path_suffix file_path \<noteq> ''.yaml''"
    and m: "mkdir env (path_parent file_path) (fs_dirs fs) = (None, dirs)"
    and d: "dict_of env self = Inr prompt_dict"
  from save_bad_suffix [OF a, of env fs] m d
  show "save env self file_path fs =
      (Inl (ValueError (MustBeJsonOrYaml (path_str file_path))), fs\<lparr>fs_dirs := dirs\<rparr>)"
    by simp
qed

theorem save_failures_witness:
  "save (example_env\<lparr>prompt_type := (\<lambda>self. Inr ''prompt'')\<rparr>) example_template
      \<lparr> path_str = ''prompts/prompt.txt'', path_parent = ''prompts'', path_suffix = ''.txt'' \<rparr>
      \<lparr> fs_dirs = {}, fs_files = Map.empty \<rparr>
     = (Inl (ValueError (MustBeJsonOrYaml ''prompts/prompt.txt'')),
        \<lparr> fs_dirs = {''prompts''}, fs_files = Map.empty \<rparr>)
   \<and> save example_env (example_template\<lparr>partial_variables := [(''page'', PStr ''1'')]\<rparr>)
      \<lparr> path_str = ''prompts/prompt.json'', path_parent = ''prompts'', path_suffix = ''.json'' \<rparr>
      \<lparr> fs_dirs = {}, fs_files = Map.empty \<rparr>
     = (Inl (ValueError CannotSavePartial), \<lparr> fs_dirs = {}, fs_files = Map.empty \<rparr>)"
  using save_failures [of example_template "example_env\<lparr>prompt_type := (\<lambda>self. Inr ''prompt'')\<rparr>"
      "\<lparr> path_str = ''prompts/prompt.txt'', path_parent = ''prompts'', path_suffix = ''.txt'' \<rparr>"
      "\<lparr> fs_dirs = {}, fs_files = Map.empty \<rparr>"]
    save_failures [of "example_template\<lparr>partial_variables := [(''page'', PStr ''1'')]\<rparr>" example_env
      "\<lparr> path_str = ''prompts/prompt.json'', path_parent = ''prompts'', path_suffix = ''.json'' \<rparr>"
      "\<lparr> fs_dirs = {}, fs_files = Map.empty \<rparr>"]
  by (simp add: save_def dict_of_def dict_del_def example_env_def example_template_def Let_def)

text \<open>
  C9 as stated has the error of an unsupported suffix be the one that names the formats.
  The suffix is checked last: for a template whose class keeps the \<^verbatim>\<open>_prompt_type\<close> of the
  base class, building the dictionary raises \<^verbatim>\<open>NotImplementedError\<close> before the suffix is
  looked at, after the parent directory has been made.
\<close>

theorem save_not_implemented_counterexample:
  "partial_variables example_template = []
   \<and> save example_env example_template
      \<lparr> path_str = ''prompts/prompt.txt'', path_parent = ''prompts'', path_suffix = ''.txt'' \<rparr>
      \<lparr> fs_dirs = {}, fs_files = Map.empty \<rparr>
     = (Inl NotImplementedError, \<lparr> fs_dirs = {''prompts''}, fs_files = Map.empty \<rparr>)"
  by (simp add: save_def dict_of_def dict_del_def example_env_def example_template_def Let_def
      base_prompt_type_def)

section \<open>The default formatters\<close>

lemma list_comprehension_Inr:
  "list_comprehension f xs = Inr ys \<longleftrightarrow>
     length ys = length xs \<and> (\<forall>i < length xs. f (xs ! i) = Inr (ys ! i))"
proof (induction xs arbitrary: ys)
  case Nil
  show ?case by auto
next
  case (Cons x xs)
  show ?case
  proof (cases "f x")
    case (Inl e)
    then have "\<not> (\<forall>i < length (x # xs). f ((x # xs) ! i) = Inr (ys ! i))"
      by (auto intro: exI [of _ 0])
    with Inl show ?thesis by simp
  next
    case fx: (Inr y)
    show ?thesis
    proof (cases "list_comprehension f xs")
      case (Inl e)
      have "\<not> (length ys = length (x # xs) \<and> (\<forall>i < length (x # xs). f ((x # xs) ! i) = Inr (ys ! i)))"
      proof
        assume a: "length ys = length (x # xs) \<and> (\<forall>i < length (x # xs). f ((x # xs) ! i) = Inr (ys ! i))"
        then obtain z zs where ys: "ys = z # zs" by (cases ys) auto
        with a have "length zs = length xs \<and> (\<forall>i < length xs. f (xs ! i) = Inr (zs ! i))"
          by auto
        with Cons.IH [of zs] Inl show False by simp
      qed
      with fx Inl show ?thesis by simp
    next
      case (Inr zs)
      with Cons.IH [of zs] have zs: "length zs = length xs" "\<forall>i < length xs. f (xs ! i) = Inr (zs ! i)"
        by simp_all
      show ?thesis
      proof
        assume "list_comprehension f (x # xs) = Inr ys"
        with fx Inr have "ys = y # zs" by simp
        with fx zs show "length ys = length (x # xs) \<and> (\<forall>i < length (x # xs). f ((x # xs) ! i) = Inr (ys ! i))"
          by (auto simp: nth_Cons split: nat.splits)
      next
        assume a: "length ys = length (x # xs) \<and> (\<forall>i < length (x # xs). f ((x # xs) ! i) = Inr (ys ! i))"
        then obtain z ws where ys: "ys = z # ws" by (cases ys) auto
        with a fx have "z = y" by auto
        moreover from a ys have "length ws = length xs \<and> (\<forall>i < length xs. f (xs ! i) = Inr (ws ! i))"
          by auto
        with Cons.IH [of ws] Inr have "ws = zs" by simp
        ultimately show "list_comprehension f (x # xs) = Inr ys"
          using fx Inr ys by simp
      qed
    qed
  qed
qed

lemma default_list_lookup: "map_of PROMPT_DEFAULT_FORMATTERS list_t = Some list_formatter"
  by (simp add: PROMPT_DEFAULT_FORMATTERS_def type_defs)

lemma default_dict_lookup: "map_of PROMPT_DEFAULT_FORMATTERS dict_t = Some dict_formatter"
  by (simp add: PROMPT_DEFAULT_FORMATTERS_def type_defs)

text \<open>
  Under the default registry a list is formatted to the list of its formatted elements,
  in their order, and only if every element can be formatted: with recursion depth left,
  \<open>format_value\<close> returns \<open>r\<close> for a list exactly when \<open>r\<close> is a list of the same length whose
  element at each position is what \<open>format_value\<close> returns for the element of the argument
  at that position.
\<close>

theorem default_list_formatting:
  "format_value (Suc d) PROMPT_DEFAULT_FORMATTERS (VList xs) = Inr r \<longleftrightarrow>
     (\<exists>ys. r = VList ys \<and> length ys = length xs
        \<and> (\<forall>i < length xs. format_value d PROMPT_DEFAULT_FORMATTERS (xs ! i) = Inr (ys ! i)))"
proof -
  have "format_value (Suc d) PROMPT_DEFAULT_FORMATTERS (VList xs)
      = (case list_comprehension (format_value d PROMPT_DEFAULT_FORMATTERS) xs of
           Inl e \<Rightarrow> Inl e
         | Inr ys \<Rightarrow> Inr (VList ys))"
    by (simp add: default_list_lookup list_formatter_def)
  also have "\<dots> = Inr r \<longleftrightarrow>
      (\<exists>ys. r = VList ys
         \<and> list_comprehension (format_value d PROMPT_DEFAULT_FORMATTERS) xs = Inr ys)"
    by (cases "list_comprehension (format_value d PROMPT_DEFAULT_FORMATTERS) xs") auto
  finally show ?thesis by (simp only: list_comprehension_Inr)
qed

theorem default_list_formatting_witness:
  "format_value (Suc (Suc 0)) PROMPT_DEFAULT_FORMATTERS (VList [VInt 1, example_document])
     = Inr (VList [VInt 1, VStr ''This is a joke''])"
  using default_list_formatting [of "Suc 0" "[VInt 1, example_document]"
      "VList [VInt 1, VStr ''This is a joke'']"]
  by (simp add: PROMPT_DEFAULT_FORMATTERS_def example_document_defs type_defs isinstance_def
      list_formatter_def document_formatter_def attrgetter_def)

text \<open>
  Under the default registry a dictionary is formatted to a dictionary with the same
  keys in the same order, each value being what \<open>format_value\<close> returns for the value of the
  argument under that key.
\<close>

theorem default_dict_formatting:
  assumes "distinct (map fst kvs)"
    and "format_value (Suc d) PROMPT_DEFAULT_FORMATTERS (VDict kvs) = Inr r"
  shows "\<exists>kys. r = VDict kys \<and> map fst kys = map fst kvs
      \<and> (\<forall>(k, v) \<in> set kvs. \<exists>y. format_value d PROMPT_DEFAULT_FORMATTERS v = Inr y
            \<and> map_of kys k = Some y)"
proof -
  let ?F = "\<lambda>(k, v). case format_value d PROMPT_DEFAULT_FORMATTERS v of
                      Inl e \<Rightarrow> Inl e
                    | Inr y \<Rightarrow> Inr (k, y)"
  have "format_value (Suc d) PROMPT_DEFAULT_FORMATTERS (VDict kvs)
      = (case dict_comprehension ?F kvs [] of Inl e \<Rightarrow> Inl e | Inr kys \<Rightarrow> Inr (VDict kys))"
    by (simp add: default_dict_lookup dict_formatter_def)
  with assms(2) obtain kys where r: "r = VDict kys" and c: "dict_comprehension ?F kvs [] = Inr kys"
    by (cases "dict_comprehension ?F kvs []") auto
  from dict_comprehension_values [OF c assms(1)] r show ?thesis by simp
qed

theorem default_dict_formatting_witness:
  "format_value (Suc (Suc 0)) PROMPT_DEFAULT_FORMATTERS
      (VDict [(''source'', example_document), (''n'', VInt 2)])
     = Inr (VDict [(''source'', VStr ''This is a joke''), (''n'', VInt 2)])"
  using default_dict_formatting [of "[(''source'', example_document), (''n'', VInt 2)]" "Suc 0"
      "VDict [(''source'', VStr ''This is a joke''), (''n'', VInt 2)]"]
  by (simp add: PROMPT_DEFAULT_FORMATTERS_def example_document_defs type_defs isinstance_def
      dict_formatter_def document_formatter_def attrgetter_def)

end
